theory Spec2Isabelle
  imports Main "HOL-Library.Sublist"
begin

section \<open>Values, errors and the remote platform\<close>

text \<open>
  The auditor is a Python class \<open>GitHubAnalyzer\<close> that reads resources of one repository
  over HTTP (library \<open>requests\<close>), classifies what it gets, prints a report and opens
  tickets. The values it handles are decoded JSON bodies; Python checks their types only
  when an operation is applied, so every operation below returns the exception Python
  raises on a value of the wrong shape.

  A decoded JSON body. \<open>JNull\<close> is Python's \<open>None\<close>; \<open>JObj\<close> lists the items of a
  \<open>dict\<close> in insertion order (keys distinct). Numbers are integers: the platform's
  counters; fractional numbers are outside the model.
\<close>

datatype json =
    JNull
  | JBool bool
  | JInt int
  | JStr string
  | JList "json list"
  | JObj "(string \<times> json) list"

text \<open>
  The exceptions that can travel through the auditor. \<open>HTTPError\<close> carries the status and
  is the only one the checks catch (\<open>except requests.exceptions.HTTPError\<close>).
  \<open>RequestException\<close> stands for every other exception raised inside \<open>requests\<close> (no
  connection, a URL it cannot use, the decoder's exception for a body that is not JSON);
  none of them is a subclass of \<open>HTTPError\<close>.
\<close>

datatype error =
    HTTPError int
  | RequestException
  | KeyError string
  | TypeError
  | AttributeError
  | ValueError

type_synonym headers = "(string \<times> string) list"

datatype request =
    Get string headers
  | Post string json headers

record response =
  status_code :: int
  json_body :: "json option"
  content :: string

text \<open>
  What a run does to the outside world, in order: the calls handed to \<open>requests\<close> and the
  lines printed.
\<close>

datatype event =
    Request request
  | Print string

text \<open>The object: the four attributes \<open>__init__\<close> sets.\<close>

record analyzer =
  token :: string
  repo_name :: string
  base_url :: string
  headers :: headers

record world =
  self :: analyzer
  trace :: "event list"

text \<open>
  The environment of a run. \<open>remote\<close> is the platform: its answer to a request (the
  response \<open>requests\<close> hands back, after the redirects it follows) may depend on
  everything that happened before; \<open>None\<close> means that \<open>requests\<close> raised instead of
  returning a response. The other fields are library functions whose results the auditor
  only passes on: base64 and UTF-8 decoding of the README payload (\<open>None\<close>: the payload
  does not decode, a \<open>ValueError\<close>), \<open>str()\<close> of a list or dict, \<open><\<close> on two lists, and the
  \<open>repr\<close> of a byte string. Every theorem holds for all of them.
\<close>

record env =
  remote :: "event list \<Rightarrow> request \<Rightarrow> response option"
  b64decode_utf8 :: "string \<Rightarrow> string option"
  str_container :: "json \<Rightarrow> string"
  lt_list :: "json list \<Rightarrow> json list \<Rightarrow> error + bool"
  repr_bytes :: "string \<Rightarrow> string"

section \<open>Statements that may raise and change the world\<close>

type_synonym 'a prog = "world \<Rightarrow> (error + 'a) \<times> world"

definition ret :: "'a \<Rightarrow> 'a prog" where
  "ret x s = (Inr x, s)"

definition lift :: "error + 'a \<Rightarrow> 'a prog" where
  "lift r s = (r, s)"

definition bind :: "'a prog \<Rightarrow> ('a \<Rightarrow> 'b prog) \<Rightarrow> 'b prog" where
  "bind m f s = (case m s of (Inl e, s') \<Rightarrow> (Inl e, s') | (Inr x, s') \<Rightarrow> f x s')"

text \<open>\<open>try: m except requests.exceptions.HTTPError: h\<close>; any other exception goes on.\<close>

definition except_HTTPError :: "'a prog \<Rightarrow> 'a prog \<Rightarrow> 'a prog" where
  "except_HTTPError m h s =
     (case m s of
        (Inl (HTTPError c), s') \<Rightarrow> h s'
      | r \<Rightarrow> r)"

definition print :: "string \<Rightarrow> unit prog" where
  "print line s = (Inr (), s\<lparr>trace := trace s @ [Print line]\<rparr>)"

text \<open>\<open>if c: m\<close> with no else.\<close>

definition if_then :: "bool \<Rightarrow> unit prog \<Rightarrow> unit prog" where
  "if_then c m = (if c then m else ret ())"

section \<open>Python's operations on strings and decoded JSON\<close>

text \<open>
  \<open>str.lower()\<close> on the characters a \<open>char\<close> can hold (code points below 256): the
  letters A to Z and the Latin-1 capitals move up by 32, everything else stays.
\<close>

definition lower_char :: "char \<Rightarrow> char" where
  "lower_char c =
     (let n = (of_char c :: nat)
      in if (65 \<le> n \<and> n \<le> 90) \<or> (192 \<le> n \<and> n \<le> 222 \<and> n \<noteq> 215)
         then char_of (n + 32) else c)"

definition lower :: "string \<Rightarrow> string" where
  "lower s = map lower_char s"

text \<open>\<open>sub in s\<close> for two strings.\<close>

fun str_contains :: "string \<Rightarrow> string \<Rightarrow> bool" where
  "str_contains [] sub = (sub = [])"
| "str_contains (c # cs) sub = (prefix sub (c # cs) \<or> str_contains cs sub)"

text \<open>\<open>sep.join(xs)\<close>.\<close>

fun join :: "string \<Rightarrow> string list \<Rightarrow> string" where
  "join sep [] = []"
| "join sep [x] = x"
| "join sep (x # y # ys) = x @ sep @ join sep (y # ys)"

text \<open>\<open>s < t\<close> on strings: the first differing code point decides, a proper prefix is smaller.\<close>

fun str_less :: "string \<Rightarrow> string \<Rightarrow> bool" where
  "str_less [] [] = False"
| "str_less [] (y # ys) = True"
| "str_less (x # xs) [] = False"
| "str_less (x # xs) (y # ys) =
     ((of_char x :: nat) < of_char y \<or> (x = y \<and> str_less xs ys))"

text \<open>Decimal digits of a length or a counter, as an f-string prints them.\<close>

definition digit_char :: "nat \<Rightarrow> char" where
  "digit_char d = char_of (48 + d)"

function str_of_nat :: "nat \<Rightarrow> string" where
  "str_of_nat n =
     (if n < 10 then [digit_char n] else str_of_nat (n div 10) @ [digit_char (n mod 10)])"
  by pat_completeness auto
termination
  by (relation "measure id") auto

declare str_of_nat.simps [simp del]

definition str_of_int :: "int \<Rightarrow> string" where
  "str_of_int i = (if i < 0 then CHR ''-'' # str_of_nat (nat (- i)) else str_of_nat (nat i))"

text \<open>\<open>d.update({k: v})\<close>: an existing key keeps its place, a new one goes last.\<close>

fun dict_update :: "'k \<Rightarrow> 'v \<Rightarrow> ('k \<times> 'v) list \<Rightarrow> ('k \<times> 'v) list" where
  "dict_update k v [] = [(k, v)]"
| "dict_update k v (p # ps) = (if fst p = k then (k, v) # ps else p # dict_update k v ps)"

text \<open>
  \<open>x[key]\<close> with a string key: a dict answers or raises \<open>KeyError\<close>; \<open>None\<close>, a number, a
  string and a list raise \<open>TypeError\<close>.
\<close>

fun subscript :: "json \<Rightarrow> string \<Rightarrow> error + json" where
  "subscript (JObj kvs) k = (case map_of kvs k of Some v \<Rightarrow> Inr v | None \<Rightarrow> Inl (KeyError k))"
| "subscript _ k = Inl TypeError"

text \<open>The truth value of \<open>x\<close> in \<open>if x:\<close>.\<close>

fun truthy :: "json \<Rightarrow> bool" where
  "truthy JNull = False"
| "truthy (JBool b) = b"
| "truthy (JInt i) = (i \<noteq> 0)"
| "truthy (JStr s) = (s \<noteq> [])"
| "truthy (JList xs) = (xs \<noteq> [])"
| "truthy (JObj kvs) = (kvs \<noteq> [])"

text \<open>
  \<open>for x in v\<close>: a list gives its elements, a dict its keys, a string its characters;
  \<open>None\<close> and numbers are not iterable.
\<close>

fun iterate :: "json \<Rightarrow> error + json list" where
  "iterate (JList xs) = Inr xs"
| "iterate (JObj kvs) = Inr (map (\<lambda>kv. JStr (fst kv)) kvs)"
| "iterate (JStr s) = Inr (map (\<lambda>c. JStr [c]) s)"
| "iterate _ = Inl TypeError"

text \<open>\<open>x.lower()\<close>: only a string has the method.\<close>

fun lower_method :: "json \<Rightarrow> error + string" where
  "lower_method (JStr s) = Inr (lower s)"
| "lower_method _ = Inl AttributeError"

text \<open>\<open>x == n\<close> for an integer \<open>n\<close>: \<open>True\<close> and \<open>False\<close> count as 1 and 0.\<close>

fun eq_int :: "json \<Rightarrow> int \<Rightarrow> bool" where
  "eq_int (JInt i) n = (i = n)"
| "eq_int (JBool b) n = ((if b then 1 else 0) = n)"
| "eq_int _ n = False"

text \<open>\<open>x < y\<close>: strings with strings, numbers with numbers, lists with lists.\<close>

fun py_lt :: "env \<Rightarrow> json \<Rightarrow> json \<Rightarrow> error + bool" where
  "py_lt env (JStr a) (JStr b) = Inr (str_less a b)"
| "py_lt env (JInt a) (JInt b) = Inr (a < b)"
| "py_lt env (JInt a) (JBool b) = Inr (a < (if b then 1 else 0))"
| "py_lt env (JBool a) (JInt b) = Inr ((if a then 1 else 0) < b)"
| "py_lt env (JBool a) (JBool b) = Inr (\<not> a \<and> b)"
| "py_lt env (JList a) (JList b) = lt_list env a b"
| "py_lt env _ _ = Inl TypeError"

text \<open>\<open>str(x)\<close>, which an f-string applies to \<open>{x}\<close>.\<close>

fun py_str :: "env \<Rightarrow> json \<Rightarrow> string" where
  "py_str env JNull = ''None''"
| "py_str env (JBool b) = (if b then ''True'' else ''False'')"
| "py_str env (JInt i) = str_of_int i"
| "py_str env (JStr s) = s"
| "py_str env v = str_container env v"

text \<open>
  \<open>base64.b64decode(x).decode('utf-8')\<close>: anything but a string is a \<open>TypeError\<close>, a
  string that does not decode a \<open>ValueError\<close> (\<open>binascii.Error\<close> and
  \<open>UnicodeDecodeError\<close> are both subclasses of it).
\<close>

fun b64decode :: "env \<Rightarrow> json \<Rightarrow> error + string" where
  "b64decode env (JStr c) =
     (case b64decode_utf8 env c of None \<Rightarrow> Inl ValueError | Some text \<Rightarrow> Inr text)"
| "b64decode env _ = Inl TypeError"

section \<open>The auditor\<close>

text \<open>\<open>GitHubAnalyzer.__init__\<close>.\<close>

definition init :: "string \<Rightarrow> string \<Rightarrow> analyzer" where
  "init tok repo =
     \<lparr>token = tok,
      repo_name = repo,
      base_url = ''https://api.github.com/repos/'' @ repo,
      headers = [(''Authorization'', ''token '' @ tok)]\<rparr>"

text \<open>
  \<open>Response.raise_for_status()\<close> raises \<open>HTTPError\<close> for the statuses 400 to 599 and
  returns \<open>None\<close> for every other one.
\<close>

definition raise_for_status :: "response \<Rightarrow> error + unit" where
  "raise_for_status r =
     (if 400 \<le> status_code r \<and> status_code r < 600 then Inl (HTTPError (status_code r))
      else Inr ())"

text \<open>
  \<open>fetch_data\<close>: status 200 returns the decoded body (\<open>response.json()\<close> raises when the
  body is not JSON); otherwise \<open>raise_for_status()\<close> is called, and when it does not raise
  the function ends without a \<open>return\<close>, that is with \<open>None\<close>.
\<close>

definition fetch_data :: "env \<Rightarrow> string \<Rightarrow> json prog" where
  "fetch_data env url s =
     (let req = Get url (headers (self s));
          s' = s\<lparr>trace := trace s @ [Request req]\<rparr>
      in case remote env (trace s) req of
           None \<Rightarrow> (Inl RequestException, s')
         | Some response \<Rightarrow>
             if status_code response = 200
             then (case json_body response of
                     None \<Rightarrow> (Inl RequestException, s')
                   | Some v \<Rightarrow> (Inr v, s'))
             else (case raise_for_status response of
                     Inl e \<Rightarrow> (Inl e, s')
                   | Inr _ \<Rightarrow> (Inr JNull, s')))"

text \<open>
  \<open>fetch_data\<close> on a URL taken from a decoded body (\<open>issue['comments_url']\<close>): when the
  value is not a string, \<open>requests\<close> raises before anything is sent.
\<close>

fun fetch_data_at :: "env \<Rightarrow> json \<Rightarrow> json prog" where
  "fetch_data_at env (JStr url) = fetch_data env url"
| "fetch_data_at env _ = lift (Inl RequestException)"

text \<open>\<open>check_dependencies\<close>: the loop over the manifest names, the \<open>try\<close> inside it.\<close>

definition manifest_files :: "string list" where
  "manifest_files = [''package.json'', ''requirements.txt'']"

fun dependencies_loop :: "env \<Rightarrow> string list \<Rightarrow> string list \<Rightarrow> string list prog" where
  "dependencies_loop env [] dependencies_status = ret dependencies_status"
| "dependencies_loop env (file_name # rest) dependencies_status =
     (\<lambda>s. bind
        (except_HTTPError
           (bind (fetch_data env (base_url (self s) @ ''/contents/'' @ file_name))
              (\<lambda>response. ret (file_name @ '' found and needs further analysis.'')))
           (ret (file_name @ '' is missing.'')))
        (\<lambda>status. dependencies_loop env rest (dependencies_status @ [status])) s)"

definition check_dependencies :: "env \<Rightarrow> string list prog" where
  "check_dependencies env = dependencies_loop env manifest_files []"

text \<open>\<open>check_documentation\<close>.\<close>

definition essential_sections :: "string list" where
  "essential_sections = [''installation'', ''usage'', ''contributing'', ''license'', ''changelog'']"

definition check_documentation :: "env \<Rightarrow> string prog" where
  "check_documentation env s =
     except_HTTPError
       (bind (fetch_data env (base_url (self s) @ ''/readme'')) (\<lambda>response.
        bind (lift (subscript response ''content'')) (\<lambda>payload.
        bind (lift (b64decode env payload)) (\<lambda>readme.
          let missing_sections =
                filter (\<lambda>section. \<not> str_contains (lower readme) section) essential_sections
          in if missing_sections = []
             then ret ''README.md is present and contains all essential sections.''
             else ret (''README.md is present but missing sections: ''
                       @ join '', '' missing_sections @ ''.'')))))
       (ret ''README.md file is missing.'') s"

text \<open>
  \<open>any(word in comment['body'].lower() for comment in comments)\<close>: the comments are read
  in order and the first hit ends the search.
\<close>

fun any_body_contains :: "string \<Rightarrow> json list \<Rightarrow> error + bool" where
  "any_body_contains word [] = Inr False"
| "any_body_contains word (comment # rest) =
     (case subscript comment ''body'' of
        Inl e \<Rightarrow> Inl e
      | Inr body \<Rightarrow>
          (case lower_method body of
             Inl e \<Rightarrow> Inl e
           | Inr text \<Rightarrow>
               if str_contains text word then Inr True else any_body_contains word rest))"

definition any_comment :: "string \<Rightarrow> json \<Rightarrow> error + bool" where
  "any_comment word comments =
     (case iterate comments of Inl e \<Rightarrow> Inl e | Inr cs \<Rightarrow> any_body_contains word cs)"

text \<open>\<open>analyze_issues\<close>: the loop that collects \<open>unresolved_issues\<close>.\<close>

fun issues_loop :: "env \<Rightarrow> json list \<Rightarrow> json list \<Rightarrow> json list prog" where
  "issues_loop env [] unresolved_issues = ret unresolved_issues"
| "issues_loop env (issue # rest) unresolved_issues =
     bind (lift (subscript issue ''comments_url'')) (\<lambda>comments_url.
     bind (fetch_data_at env comments_url) (\<lambda>comments.
     bind (lift (any_comment ''resolved'' comments)) (\<lambda>resolved.
       issues_loop env rest
         (if \<not> resolved then unresolved_issues @ [issue] else unresolved_issues))))"

text \<open>
  The comprehension
  \<open>[issue for issue in unresolved_issues if issue['updated_at'] < issue['created_at']]\<close>.
\<close>

fun inactive_filter :: "env \<Rightarrow> json list \<Rightarrow> error + json list" where
  "inactive_filter env [] = Inr []"
| "inactive_filter env (issue # rest) =
     (case subscript issue ''updated_at'' of
        Inl e \<Rightarrow> Inl e
      | Inr updated_at \<Rightarrow>
          (case subscript issue ''created_at'' of
             Inl e \<Rightarrow> Inl e
           | Inr created_at \<Rightarrow>
               (case py_lt env updated_at created_at of
                  Inl e \<Rightarrow> Inl e
                | Inr earlier \<Rightarrow>
                    (case inactive_filter env rest of
                       Inl e \<Rightarrow> Inl e
                     | Inr inactive \<Rightarrow> Inr (if earlier then issue # inactive else inactive)))))"

definition analyze_issues :: "env \<Rightarrow> string prog" where
  "analyze_issues env s =
     bind (fetch_data env (base_url (self s) @ ''/issues?state=open'')) (\<lambda>open_issues.
     bind (lift (iterate open_issues)) (\<lambda>issues.
     bind (issues_loop env issues []) (\<lambda>unresolved_issues.
     bind (lift (inactive_filter env unresolved_issues)) (\<lambda>inactive_issues.
       if unresolved_issues = [] then ret ''No unresolved open issues.''
       else if inactive_issues \<noteq> []
       then ret (''Found '' @ str_of_nat (length unresolved_issues)
                 @ '' unresolved open issues, including ''
                 @ str_of_nat (length inactive_issues) @ '' with long inactivity.'')
       else ret (''Found '' @ str_of_nat (length unresolved_issues)
                 @ '' unresolved open issues.''))))) s"

text \<open>\<open>analyze_pull_requests\<close>.\<close>

fun pulls_loop :: "env \<Rightarrow> json list \<Rightarrow> json list \<Rightarrow> json list prog" where
  "pulls_loop env [] unmerged_pulls = ret unmerged_pulls"
| "pulls_loop env (pull # rest) unmerged_pulls =
     bind (lift (subscript pull ''merged_at'')) (\<lambda>merged_at.
       if truthy merged_at then pulls_loop env rest unmerged_pulls
       else
         bind (lift (subscript pull ''_links'')) (\<lambda>links.
         bind (lift (subscript links ''comments'')) (\<lambda>link.
         bind (lift (subscript link ''href'')) (\<lambda>comments_url.
         bind (fetch_data_at env comments_url) (\<lambda>comments.
         bind (lift (any_comment ''addressed'' comments)) (\<lambda>addressed.
           pulls_loop env rest
             (if \<not> addressed then unmerged_pulls @ [pull] else unmerged_pulls)))))))"

definition analyze_pull_requests :: "env \<Rightarrow> string prog" where
  "analyze_pull_requests env s =
     bind (fetch_data env (base_url (self s) @ ''/pulls?state=open'')) (\<lambda>open_pulls.
     bind (lift (iterate open_pulls)) (\<lambda>pulls.
     bind (pulls_loop env pulls []) (\<lambda>unmerged_pulls.
       if unmerged_pulls = [] then ret ''No unresolved open pull requests.''
       else ret (''Found '' @ str_of_nat (length unmerged_pulls)
                 @ '' unresolved open pull requests.'')))) s"

text \<open>\<open>check_security\<close>; \<open>alerts['total_count']\<close> is read again for the message, with the
  same result.\<close>

definition check_security :: "env \<Rightarrow> string prog" where
  "check_security env s =
     except_HTTPError
       (bind (fetch_data env (base_url (self s) @ ''/vulnerability-alerts'')) (\<lambda>alerts.
        bind (lift (subscript alerts ''total_count'')) (\<lambda>total_count.
          if eq_int total_count 0 then ret ''No reported vulnerabilities.''
          else ret (''Found '' @ py_str env total_count @ '' security vulnerabilities.''))))
       (ret ''Could not retrieve security vulnerabilities.'') s"

text \<open>\<open>check_license\<close>.\<close>

definition check_license :: "env \<Rightarrow> string prog" where
  "check_license env s =
     except_HTTPError
       (bind (fetch_data env (base_url (self s) @ ''/license'')) (\<lambda>response.
        bind (lift (subscript response ''license'')) (\<lambda>license.
          if truthy license
          then bind (lift (subscript license ''name'')) (\<lambda>name.
                 ret (''License file is present with '' @ py_str env name @ '' license.''))
          else ret ''License file is missing.'')))
       (ret ''License file is missing.'') s"

text \<open>The four existence probes.\<close>

definition check_contributing_guidelines :: "env \<Rightarrow> string prog" where
  "check_contributing_guidelines env s =
     except_HTTPError
       (bind (fetch_data env (base_url (self s) @ ''/contents/CONTRIBUTING.md''))
          (\<lambda>_. ret ''Contributing guidelines are present.''))
       (ret ''Contributing guidelines are missing.'') s"

definition check_issue_templates :: "env \<Rightarrow> string prog" where
  "check_issue_templates env s =
     except_HTTPError
       (bind (fetch_data env (base_url (self s) @ ''/contents/.github/ISSUE_TEMPLATE/''))
          (\<lambda>_. ret ''Issue templates are present.''))
       (ret ''Issue templates are missing.'') s"

definition check_pull_request_templates :: "env \<Rightarrow> string prog" where
  "check_pull_request_templates env s =
     except_HTTPError
       (bind (fetch_data env (base_url (self s) @ ''/contents/.github/PULL_REQUEST_TEMPLATE.md''))
          (\<lambda>_. ret ''Pull request templates are present.''))
       (ret ''Pull request templates are missing.'') s"

definition check_changelog :: "env \<Rightarrow> string prog" where
  "check_changelog env s =
     except_HTTPError
       (bind (fetch_data env (base_url (self s) @ ''/contents/CHANGELOG.md''))
          (\<lambda>_. ret ''Changelog is present.''))
       (ret ''Changelog is missing.'') s"

text \<open>
  \<open>create_issue\<close>: the \<open>Accept\<close> header is written into \<open>self.headers\<close> before the request
  is sent; the answer only chooses the line printed.
\<close>

definition create_issue :: "env \<Rightarrow> string \<Rightarrow> string \<Rightarrow> unit prog" where
  "create_issue env title body s =
     (let url = base_url (self s) @ ''/issues'';
          issue = JObj [(''title'', JStr title), (''body'', JStr body)];
          s1 = s\<lparr>self := (self s)\<lparr>headers :=
                 dict_update ''Accept'' ''application/vnd.github.v3+json'' (headers (self s))\<rparr>\<rparr>;
          req = Post url issue (headers (self s1));
          s2 = s1\<lparr>trace := trace s1 @ [Request req]\<rparr>
      in case remote env (trace s1) req of
           None \<Rightarrow> (Inl RequestException, s2)
         | Some response \<Rightarrow>
             if status_code response = 201
             then print (''Issue created: '' @ title) s2
             else print (''Failed to create issue: '' @ repr_bytes env (content response)) s2)"

text \<open>The text of the report, an f-string over the ten statuses.\<close>

definition newline :: string where
  "newline = [char_of (10 :: nat)]"

definition report_line :: "string \<Rightarrow> string \<Rightarrow> string" where
  "report_line label status = ''        '' @ label @ status @ newline"

definition report_text ::
  "string \<Rightarrow> string \<Rightarrow> string \<Rightarrow> string \<Rightarrow> string list \<Rightarrow> string \<Rightarrow> string \<Rightarrow> string
   \<Rightarrow> string \<Rightarrow> string \<Rightarrow> string \<Rightarrow> string" where
  "report_text repo documentation_status issues_status pulls_status dependencies_status
     security_status license_status contributing_status issue_templates_status
     pr_templates_status changelog_status =
     newline
     @ report_line ''Repository Analysis Report for '' (repo @ '':'')
     @ report_line ''1. Documentation: '' documentation_status
     @ report_line ''2. Open Issues: '' issues_status
     @ report_line ''3. Open Pull Requests: '' pulls_status
     @ report_line ''4. Dependencies Status: '' (join '', '' dependencies_status)
     @ report_line ''5. Security Status: '' security_status
     @ report_line ''6. License: '' license_status
     @ report_line ''7. Contributing Guidelines: '' contributing_status
     @ report_line ''8. Issue Templates: '' issue_templates_status
     @ report_line ''9. Pull Request Templates: '' pr_templates_status
     @ report_line ''10. Changelog: '' changelog_status
     @ ''        ''"

text \<open>
  The second half of \<open>report_findings\<close> (\<open># Create issues for critical problems\<close>): nine
  tests on the statuses, in this order, each with its ticket.
\<close>

definition create_issues ::
  "env \<Rightarrow> string \<Rightarrow> string \<Rightarrow> string list \<Rightarrow> string \<Rightarrow> string \<Rightarrow> string \<Rightarrow> string
   \<Rightarrow> string \<Rightarrow> string \<Rightarrow> unit prog" where
  "create_issues env documentation_status issues_status dependencies_status security_status
     license_status contributing_status issue_templates_status pr_templates_status
     changelog_status =
     bind (if_then (str_contains (lower documentation_status) ''missing'')
             (create_issue env ''Missing README.md or essential sections'' documentation_status))
       (\<lambda>_.
     bind (if_then (str_contains (lower issues_status) ''long inactivity'')
             (create_issue env ''Unresolved issues with long inactivity'' issues_status))
       (\<lambda>_.
     bind (if_then (list_ex (\<lambda>status. str_contains (lower status) ''missing'') dependencies_status)
             (create_issue env ''Missing dependency files'' (join '', '' dependencies_status)))
       (\<lambda>_.
     bind (if_then (str_contains (lower security_status) ''security vulnerabilities'')
             (create_issue env ''Security vulnerabilities detected'' security_status))
       (\<lambda>_.
     bind (if_then (str_contains (lower license_status) ''missing'')
             (create_issue env ''License file missing'' license_status))
       (\<lambda>_.
     bind (if_then (str_contains (lower contributing_status) ''missing'')
             (create_issue env ''Contributing guidelines missing'' contributing_status))
       (\<lambda>_.
     bind (if_then (str_contains (lower issue_templates_status) ''missing'')
             (create_issue env ''Issue templates missing'' issue_templates_status))
       (\<lambda>_.
     bind (if_then (str_contains (lower pr_templates_status) ''missing'')
             (create_issue env ''Pull request templates missing'' pr_templates_status))
       (\<lambda>_.
     if_then (str_contains (lower changelog_status) ''missing'')
       (create_issue env ''Changelog missing'' changelog_status)))))))))"

text \<open>\<open>report_findings\<close>: the ten checks, the report, the tickets.\<close>

definition report_findings :: "env \<Rightarrow> unit prog" where
  "report_findings env =
     bind (check_documentation env) (\<lambda>documentation_status.
     bind (analyze_issues env) (\<lambda>issues_status.
     bind (analyze_pull_requests env) (\<lambda>pulls_status.
     bind (check_dependencies env) (\<lambda>dependencies_status.
     bind (check_security env) (\<lambda>security_status.
     bind (check_license env) (\<lambda>license_status.
     bind (check_contributing_guidelines env) (\<lambda>contributing_status.
     bind (check_issue_templates env) (\<lambda>issue_templates_status.
     bind (check_pull_request_templates env) (\<lambda>pr_templates_status.
     bind (check_changelog env) (\<lambda>changelog_status.
     bind (\<lambda>s. print (report_text (repo_name (self s)) documentation_status issues_status
                        pulls_status dependencies_status security_status license_status
                        contributing_status issue_templates_status pr_templates_status
                        changelog_status) s) (\<lambda>_.
       create_issues env documentation_status issues_status dependencies_status
         security_status license_status contributing_status issue_templates_status
         pr_templates_status changelog_status)))))))))))"

section \<open>What a statement does to the world\<close>

text \<open>A statement that leaves the world as it is.\<close>

definition stateless :: "'a prog \<Rightarrow> bool" where
  "stateless m \<longleftrightarrow> (\<forall>s. snd (m s) = s)"

text \<open>
  The world after some reads: the object is the same, the trace has grown by one \<open>Get\<close> for
  each URL, sent with the headers of the object.
\<close>

definition reads :: "world \<Rightarrow> string list \<Rightarrow> world" where
  "reads s urls = s\<lparr>trace := trace s @ map (\<lambda>u. Request (Get u (headers (self s)))) urls\<rparr>"

text \<open>A statement that does nothing to the world but read.\<close>

definition only_reads :: "'a prog \<Rightarrow> bool" where
  "only_reads m \<longleftrightarrow> (\<forall>s. \<exists>us. snd (m s) = reads s us)"

text \<open>The object once \<open>create_issue\<close> has written the \<open>Accept\<close> header into \<open>self.headers\<close>.\<close>

definition with_accept :: "analyzer \<Rightarrow> analyzer" where
  "with_accept a =
     a\<lparr>headers := dict_update ''Accept'' ''application/vnd.github.v3+json'' (headers a)\<rparr>"

text \<open>A statement that leaves the object as it is or as \<open>create_issue\<close> leaves it.\<close>

definition accepting :: "'a prog \<Rightarrow> bool" where
  "accepting m \<longleftrightarrow>
     (\<forall>s. self (snd (m s)) = self s \<or> self (snd (m s)) = with_accept (self s))"

section \<open>Notions the claims use\<close>

text \<open>
  The claims' notion of a case-insensitive occurrence, in their own words: some run of
  consecutive characters of the text is the word, whatever the casing of the run.
\<close>

definition mentions :: "string \<Rightarrow> string \<Rightarrow> bool" where
  "mentions text word \<longleftrightarrow> (\<exists>run. sublist run text \<and> lower run = word)"

text \<open>The text of a comment, when the comment is an object whose \<open>body\<close> is a string.\<close>

definition comment_text :: "json \<Rightarrow> string option" where
  "comment_text comment =
     (case subscript comment ''body'' of Inr (JStr text) \<Rightarrow> Some text | _ \<Rightarrow> None)"

text \<open>Some comment of the thread has the word in its text, in some casing.\<close>

definition thread_mentions :: "json list \<Rightarrow> string \<Rightarrow> bool" where
  "thread_mentions comments word =
     list_ex (\<lambda>comment. case comment_text comment of
                          Some text \<Rightarrow> mentions text word
                        | None \<Rightarrow> False) comments"

text \<open>
  The platform serves the comment thread of an issue: the issue names the thread by a URL,
  a read of that URL with the given headers is answered, whenever it is made, with status
  200 and the list of comments, and every comment has a text.
\<close>

definition serves_thread :: "env \<Rightarrow> headers \<Rightarrow> json \<Rightarrow> json list \<Rightarrow> bool" where
  "serves_thread env h issue comments \<longleftrightarrow>
     (\<exists>url. subscript issue ''comments_url'' = Inr (JStr url)
        \<and> (\<forall>history. \<exists>r. remote env history (Get url h) = Some r
              \<and> status_code r = 200 \<and> json_body r = Some (JList comments)))
     \<and> list_all (\<lambda>comment. comment_text comment \<noteq> None) comments"

text \<open>The issue records both timestamps as strings.\<close>

definition has_timestamps :: "json \<Rightarrow> bool" where
  "has_timestamps issue =
     (case (subscript issue ''updated_at'', subscript issue ''created_at'') of
        (Inr (JStr updated_at), Inr (JStr created_at)) \<Rightarrow> True
      | _ \<Rightarrow> False)"

text \<open>The recorded last-updated timestamp is smaller, as a string, than the creation one.\<close>

definition updated_before_created :: "json \<Rightarrow> bool" where
  "updated_before_created issue =
     (case (subscript issue ''updated_at'', subscript issue ''created_at'') of
        (Inr (JStr updated_at), Inr (JStr created_at)) \<Rightarrow> str_less updated_at created_at
      | _ \<Rightarrow> False)"

section \<open>Notions for the order of a run\<close>

text \<open>
  What an event is, without the headers it was sent with and the text it printed: a read of
  a URL, a line on the console, or a ticket with its title submitted to a URL.
\<close>

datatype action =
    Read string
  | Printed
  | Submit string string

definition ticket_title :: "json \<Rightarrow> string" where
  "ticket_title issue = (case subscript issue ''title'' of Inr (JStr title) \<Rightarrow> title | _ \<Rightarrow> [])"

fun action_of :: "event \<Rightarrow> action" where
  "action_of (Request (Get url h)) = Read url"
| "action_of (Request (Post url issue h)) = Submit url (ticket_title issue)"
| "action_of (Print line) = Printed"

text \<open>What a run has done since the world \<open>s\<close>, when it has reached the world \<open>s'\<close>.\<close>

definition actions_since :: "world \<Rightarrow> world \<Rightarrow> action list" where
  "actions_since s s' = map action_of (drop (length (trace s)) (trace s'))"

text \<open>
  The reads of the ten checks in the order Documentation, Issues, Pull Requests, Dependencies
  (two manifests), Security, License, Contributing, Issue Templates, PR Templates,
  Changelog. The issue check and the pull request check read comment threads after their
  listing; which ones depends on the listing.
\<close>

definition check_reads :: "string \<Rightarrow> string list \<Rightarrow> string list \<Rightarrow> action list" where
  "check_reads b issue_threads pull_threads =
     [Read (b @ ''/readme'')]
     @ Read (b @ ''/issues?state=open'') # map Read issue_threads
     @ Read (b @ ''/pulls?state=open'') # map Read pull_threads
     @ [Read (b @ ''/contents/package.json''),
        Read (b @ ''/contents/requirements.txt''),
        Read (b @ ''/vulnerability-alerts''),
        Read (b @ ''/license''),
        Read (b @ ''/contents/CONTRIBUTING.md''),
        Read (b @ ''/contents/.github/ISSUE_TEMPLATE/''),
        Read (b @ ''/contents/.github/PULL_REQUEST_TEMPLATE.md''),
        Read (b @ ''/contents/CHANGELOG.md'')]"

text \<open>The titles of the nine tickets, in the order of the tests that ask for them.\<close>

definition remediation_titles :: "string list" where
  "remediation_titles =
     [''Missing README.md or essential sections'',
      ''Unresolved issues with long inactivity'',
      ''Missing dependency files'',
      ''Security vulnerabilities detected'',
      ''License file missing'',
      ''Contributing guidelines missing'',
      ''Issue templates missing'',
      ''Pull request templates missing'',
      ''Changelog missing'']"

text \<open>Each ticket is submitted and then one line is printed about it.\<close>

definition submissions :: "string \<Rightarrow> string list \<Rightarrow> action list" where
  "submissions b titles = concat (map (\<lambda>title. [Submit (b @ ''/issues'') title, Printed]) titles)"

text \<open>A whole run: the checks, the report, the tickets.\<close>

definition audit_actions :: "string \<Rightarrow> string list \<Rightarrow> string list \<Rightarrow> string list \<Rightarrow> action list" where
  "audit_actions b issue_threads pull_threads titles =
     check_reads b issue_threads pull_threads @ Printed # submissions b titles"

text \<open>
  A statement follows a set of plans (one set for each base URL): it keeps the base URL,
  only adds to the trace, and what it adds is, without headers and texts, one of the plans
  when it returns and the beginning of one of them when it raises.
\<close>

definition follows :: "'a prog \<Rightarrow> (string \<Rightarrow> action list set) \<Rightarrow> bool" where
  "follows m plans \<longleftrightarrow>
     (\<forall>s. base_url (self (snd (m s))) = base_url (self s)
        \<and> take (length (trace s)) (trace (snd (m s))) = trace s
        \<and> (\<exists>plan \<in> plans (base_url (self s)).
              prefix (actions_since s (snd (m s))) plan
              \<and> (isl (fst (m s)) \<or> actions_since s (snd (m s)) = plan)))"

definition seq :: "(string \<Rightarrow> action list set) \<Rightarrow> (string \<Rightarrow> action list set)
    \<Rightarrow> string \<Rightarrow> action list set" where
  "seq first second b = {p @ q | p q. p \<in> first b \<and> q \<in> second b}"

definition inhabited :: "(string \<Rightarrow> action list set) \<Rightarrow> bool" where
  "inhabited plans \<longleftrightarrow> (\<forall>b. plans b \<noteq> {})"

fun ticket_plans :: "string list \<Rightarrow> string \<Rightarrow> action list set" where
  "ticket_plans [] b = {[]}"
| "ticket_plans (title # titles) b =
     seq (\<lambda>b. {[], [Submit (b @ ''/issues'') title, Printed]}) (ticket_plans titles) b"

text \<open>The plans of a whole run, check after check.\<close>

definition audit_plans :: "string \<Rightarrow> action list set" where
  "audit_plans =
     seq (\<lambda>b. {[Read (b @ ''/readme'')]})
    (seq (seq (\<lambda>b. {[Read (b @ ''/issues?state=open'')]}) (\<lambda>b. range (map Read)))
    (seq (seq (\<lambda>b. {[Read (b @ ''/pulls?state=open'')]}) (\<lambda>b. range (map Read)))
    (seq (\<lambda>b. {[Read (b @ ''/contents/package.json''), Read (b @ ''/contents/requirements.txt'')]})
    (seq (\<lambda>b. {[Read (b @ ''/vulnerability-alerts'')]})
    (seq (\<lambda>b. {[Read (b @ ''/license'')]})
    (seq (\<lambda>b. {[Read (b @ ''/contents/CONTRIBUTING.md'')]})
    (seq (\<lambda>b. {[Read (b @ ''/contents/.github/ISSUE_TEMPLATE/'')]})
    (seq (\<lambda>b. {[Read (b @ ''/contents/.github/PULL_REQUEST_TEMPLATE.md'')]})
    (seq (\<lambda>b. {[Read (b @ ''/contents/CHANGELOG.md'')]})
    (seq (\<lambda>b. {[Printed]})
         (ticket_plans remediation_titles)))))))))))"

section \<open>Notions for the tickets of a run\<close>

text \<open>The ticket an event submits, as title and body; a read or a printed line submits none.\<close>

fun ticket_of :: "event \<Rightarrow> (string \<times> string) list" where
  "ticket_of (Request (Post url issue h)) =
     (case (subscript issue ''title'', subscript issue ''body'') of
        (Inr (JStr title), Inr (JStr body)) \<Rightarrow> [(title, body)]
      | _ \<Rightarrow> [])"
| "ticket_of _ = []"

text \<open>The tickets submitted between the world \<open>s\<close> and the world \<open>s'\<close> of a run, in order.\<close>

definition tickets_since :: "world \<Rightarrow> world \<Rightarrow> (string \<times> string) list" where
  "tickets_since s s' = concat (map ticket_of (drop (length (trace s)) (trace s')))"

text \<open>A statement that, when it returns, has submitted exactly the given tickets.\<close>

definition submits :: "'a prog \<Rightarrow> (string \<times> string) list \<Rightarrow> bool" where
  "submits m due \<longleftrightarrow>
     (\<forall>s x s'. m s = (Inr x, s') \<longrightarrow>
        (\<exists>evs. trace s' = trace s @ evs \<and> concat (map ticket_of evs) = due))"

text \<open>The tickets the nine tests ask for, given the statuses.\<close>

definition due_tickets ::
  "string \<Rightarrow> string \<Rightarrow> string list \<Rightarrow> string \<Rightarrow> string \<Rightarrow> string \<Rightarrow> string \<Rightarrow> string \<Rightarrow> string
   \<Rightarrow> (string \<times> string) list" where
  "due_tickets documentation_status issues_status dependencies_status security_status
     license_status contributing_status issue_templates_status pr_templates_status
     changelog_status =
     (if str_contains (lower documentation_status) ''missing''
      then [(''Missing README.md or essential sections'', documentation_status)] else [])
     @ (if str_contains (lower issues_status) ''long inactivity''
        then [(''Unresolved issues with long inactivity'', issues_status)] else [])
     @ (if list_ex (\<lambda>status. str_contains (lower status) ''missing'') dependencies_status
        then [(''Missing dependency files'', join '', '' dependencies_status)] else [])
     @ (if str_contains (lower security_status) ''security vulnerabilities''
        then [(''Security vulnerabilities detected'', security_status)] else [])
     @ (if str_contains (lower license_status) ''missing''
        then [(''License file missing'', license_status)] else [])
     @ (if str_contains (lower contributing_status) ''missing''
        then [(''Contributing guidelines missing'', contributing_status)] else [])
     @ (if str_contains (lower issue_templates_status) ''missing''
        then [(''Issue templates missing'', issue_templates_status)] else [])
     @ (if str_contains (lower pr_templates_status) ''missing''
        then [(''Pull request templates missing'', pr_templates_status)] else [])
     @ (if str_contains (lower changelog_status) ''missing''
        then [(''Changelog missing'', changelog_status)] else [])"

text \<open>
  The world in which the security check starts, in a run from \<open>s\<close> whose first four checks
  return.
\<close>

definition before_security :: "env \<Rightarrow> world \<Rightarrow> world" where
  "before_security env s =
     snd (check_dependencies env
       (snd (analyze_pull_requests env
         (snd (analyze_issues env
           (snd (check_documentation env s)))))))"

text \<open>What \<open>fetch_data\<close> makes of the platform's answer.\<close>

definition outcome :: "response option \<Rightarrow> error + json" where
  "outcome answer =
     (case answer of
        None \<Rightarrow> Inl RequestException
      | Some r \<Rightarrow>
          if status_code r = 200
          then (case json_body r of None \<Rightarrow> Inl RequestException | Some v \<Rightarrow> Inr v)
          else (case raise_for_status r of Inl e \<Rightarrow> Inl e | Inr _ \<Rightarrow> Inr JNull))"

text \<open>A statement of type unit that returns from every world.\<close>

definition returns :: "unit prog \<Rightarrow> bool" where
  "returns m \<longleftrightarrow> (\<forall>s. fst (m s) = Inr ())"

section \<open>Scenarios\<close>

text \<open>
  Concrete runs, used to evaluate the auditor. The object is built by \<open>__init__\<close> and nothing
  has happened yet.
\<close>

definition world0 :: world where
  "world0 = \<lparr>self = init ''secret'' ''octo/demo'', trace = []\<rparr>"

text \<open>
  A platform whose answer depends on the request only. The payload table holds the base64
  text of the README used in the scenarios (\<open>Installation, Usage, Contributing\<close> and the
  same with \<open>License, Changelog\<close>).
\<close>

definition answering :: "(request \<Rightarrow> response option) \<Rightarrow> env" where
  "answering f =
     \<lparr>remote = (\<lambda>history. f),
      b64decode_utf8 = map_of
        [(''SW5zdGFsbGF0aW9uLCBVc2FnZSwgQ29udHJpYnV0aW5n'',
          ''Installation, Usage, Contributing''),
         (''SW5zdGFsbGF0aW9uLCBVc2FnZSwgQ29udHJpYnV0aW5nLCBMSUNFTlNFLCBDaGFuZ2VMb2c='',
          ''Installation, Usage, Contributing, LICENSE, ChangeLog'')],
      str_container = (\<lambda>v. []),
      lt_list = (\<lambda>a b. Inl TypeError),
      repr_bytes = (\<lambda>b. b)\<rparr>"

text \<open>Every request is answered \<open>304 Not Modified\<close>, with no body.\<close>

definition not_modified :: "request \<Rightarrow> response option" where
  "not_modified req = Some \<lparr>status_code = 304, json_body = None, content = []\<rparr>"

text \<open>Every request is answered \<open>201 Created\<close>.\<close>

definition created :: "request \<Rightarrow> response option" where
  "created req = Some \<lparr>status_code = 201, json_body = None, content = []\<rparr>"

text \<open>A successful answer with a JSON body, and the answer to a resource that is absent.\<close>

definition ok :: "json \<Rightarrow> response" where
  "ok v = \<lparr>status_code = 200, json_body = Some v, content = []\<rparr>"

definition not_found :: response where
  "not_found = \<lparr>status_code = 404, json_body = None, content = ''Not Found''\<rparr>"

text \<open>
  A platform given by a table of resources: a \<open>Get\<close> of a listed URL is answered from the
  table, of any other with 404; every \<open>Post\<close> is answered \<open>201 Created\<close>.
\<close>

definition serving :: "(string \<times> response) list \<Rightarrow> request \<Rightarrow> response option" where
  "serving resources req =
     (case req of
        Get url h \<Rightarrow> (case map_of resources url of Some r \<Rightarrow> Some r | None \<Rightarrow> Some not_found)
      | Post url issue h \<Rightarrow> Some \<lparr>status_code = 201, json_body = None, content = []\<rparr>)"

definition readme_all_sections :: "(string \<times> response) list" where
  "readme_all_sections =
     [(''https://api.github.com/repos/octo/demo/readme'',
       ok (JObj [(''name'', JStr ''README.md''),
                 (''content'', JStr
                   ''SW5zdGFsbGF0aW9uLCBVc2FnZSwgQ29udHJpYnV0aW5nLCBMSUNFTlNFLCBDaGFuZ2VMb2c='')]))]"

definition readme_three_sections :: "(string \<times> response) list" where
  "readme_three_sections =
     [(''https://api.github.com/repos/octo/demo/readme'',
       ok (JObj [(''name'', JStr ''README.md''),
                 (''content'', JStr ''SW5zdGFsbGF0aW9uLCBVc2FnZSwgQ29udHJpYnV0aW5n'')]))]"

text \<open>
  The repository of the scenarios: two open issues, no open pull request, no README, no
  manifest, no licence and none of the other files. Issue 7 records an update a month
  before its creation.
\<close>

definition issue7 :: json where
  "issue7 =
     JObj [(''number'', JInt 7),
           (''comments_url'', JStr ''https://api.github.com/repos/octo/demo/issues/7/comments''),
           (''created_at'', JStr ''2024-03-01T10:00:00Z''),
           (''updated_at'', JStr ''2024-02-01T10:00:00Z'')]"

definition issue9 :: json where
  "issue9 =
     JObj [(''number'', JInt 9),
           (''comments_url'', JStr ''https://api.github.com/repos/octo/demo/issues/9/comments''),
           (''created_at'', JStr ''2024-03-02T08:30:00Z''),
           (''updated_at'', JStr ''2024-03-05T17:45:00Z'')]"

definition comment :: "string \<Rightarrow> json" where
  "comment words = JObj [(''user'', JStr ''octocat''), (''body'', JStr words)]"

definition open_threads :: "json \<Rightarrow> json list" where
  "open_threads issue =
     (if issue = issue7 then [comment ''Still happening on main.'']
      else [comment ''Any news?'', comment ''Not yet.''])"

definition demo_unsolved :: "(string \<times> response) list" where
  "demo_unsolved =
     [(''https://api.github.com/repos/octo/demo/issues?state=open'', ok (JList [issue7, issue9])),
      (''https://api.github.com/repos/octo/demo/issues/7/comments'', ok (JList (open_threads issue7))),
      (''https://api.github.com/repos/octo/demo/issues/9/comments'', ok (JList (open_threads issue9))),
      (''https://api.github.com/repos/octo/demo/pulls?state=open'', ok (JList []))]"

text \<open>The same repository once a comment on issue 7 says that it is resolved.\<close>

definition demo_resolved :: "(string \<times> response) list" where
  "demo_resolved =
     [(''https://api.github.com/repos/octo/demo/issues?state=open'', ok (JList [issue7, issue9])),
      (''https://api.github.com/repos/octo/demo/issues/7/comments'',
       ok (JList [comment ''Still happening on main.'', comment ''Resolved in 1.2''])),
      (''https://api.github.com/repos/octo/demo/issues/9/comments'', ok (JList (open_threads issue9))),
      (''https://api.github.com/repos/octo/demo/pulls?state=open'', ok (JList []))]"

text \<open>
  The repository of the scenarios with a given answer to the read of the vulnerability
  alerts and a given fate of the read of the licence (\<open>None\<close>: the connection fails).
\<close>

definition repository :: "response \<Rightarrow> response option \<Rightarrow> request \<Rightarrow> response option" where
  "repository alerts licence req =
     (case req of
        Get url h \<Rightarrow>
          if url = ''https://api.github.com/repos/octo/demo/vulnerability-alerts'' then Some alerts
          else if url = ''https://api.github.com/repos/octo/demo/license'' then licence
          else serving demo_unsolved req
      | Post url issue h \<Rightarrow> serving demo_unsolved req)"

definition three_alerts :: response where
  "three_alerts = ok (JObj [(''total_count'', JInt 3)])"

section \<open>Sequencing and the effects of the checks\<close>

lemma stateless_ret [simp]: "stateless (ret x)"
  by (simp add: stateless_def ret_def)

lemma stateless_lift [simp]: "stateless (lift r)"
  by (simp add: stateless_def lift_def)

lemma stateless_bind [simp]: "stateless m \<Longrightarrow> (\<And>x. stateless (f x)) \<Longrightarrow> stateless (bind m f)"
  by (auto simp: stateless_def bind_def split: prod.splits sum.splits) (metis snd_conv)+

lemma stateless_if [simp]: "stateless m \<Longrightarrow> stateless n \<Longrightarrow> stateless (if c then m else n)"
  by simp

lemma stateless_let [simp]: "(\<And>x. stateless (f x)) \<Longrightarrow> stateless (let x = v in f x)"
  by simp

lemma bind_lift: "bind (lift r) f s = (case r of Inl e \<Rightarrow> (Inl e, s) | Inr x \<Rightarrow> f x s)"
  by (simp add: bind_def lift_def split: sum.splits)

lemma bind_ret: "bind (ret x) f s = f x s"
  by (simp add: bind_def ret_def)

lemma bind_cases:
  assumes "bind m f s = (r, s')"
  obtains (raised) e where "m s = (Inl e, s')" "r = Inl e"
        | (went_on) x s1 where "m s = (Inr x, s1)" "f x s1 = (r, s')"
  using assms by (auto simp: bind_def split: prod.splits sum.splits)

lemma bind_InrD:
  "bind m f s = (Inr y, s') \<Longrightarrow> \<exists>x s1. m s = (Inr x, s1) \<and> f x s1 = (Inr y, s')"
  by (auto simp: bind_def split: prod.splits sum.splits)

lemma snd_fetch_data:
  "snd (fetch_data env url s) = s\<lparr>trace := trace s @ [Request (Get url (headers (self s)))]\<rparr>"
  by (simp add: fetch_data_def Let_def split: option.splits sum.splits)

lemma snd_bind_stateless:
  "(\<And>x. stateless (k x)) \<Longrightarrow> snd (bind m k s) = snd (m s)"
  by (auto simp: stateless_def bind_def split: prod.splits sum.splits)

lemma snd_except_stateless:
  "stateless h \<Longrightarrow> snd (except_HTTPError m h s) = snd (m s)"
  by (auto simp: stateless_def except_HTTPError_def split: prod.splits sum.splits error.splits)

lemmas snd_probe = snd_except_stateless snd_bind_stateless snd_fetch_data

lemma snd_check_documentation:
  "snd (check_documentation env s) =
     s\<lparr>trace := trace s @ [Request (Get (base_url (self s) @ ''/readme'') (headers (self s)))]\<rparr>"
  by (simp add: check_documentation_def snd_probe)

lemma snd_check_security:
  "snd (check_security env s) =
     s\<lparr>trace := trace s @ [Request (Get (base_url (self s) @ ''/vulnerability-alerts'') (headers (self s)))]\<rparr>"
  by (simp add: check_security_def snd_probe)

lemma snd_check_license:
  "snd (check_license env s) =
     s\<lparr>trace := trace s @ [Request (Get (base_url (self s) @ ''/license'') (headers (self s)))]\<rparr>"
  by (simp add: check_license_def snd_probe)

lemma snd_check_contributing_guidelines:
  "snd (check_contributing_guidelines env s) =
     s\<lparr>trace := trace s @ [Request (Get (base_url (self s) @ ''/contents/CONTRIBUTING.md'') (headers (self s)))]\<rparr>"
  by (simp add: check_contributing_guidelines_def snd_probe)

lemma snd_check_issue_templates:
  "snd (check_issue_templates env s) =
     s\<lparr>trace := trace s @ [Request (Get (base_url (self s) @ ''/contents/.github/ISSUE_TEMPLATE/'') (headers (self s)))]\<rparr>"
  by (simp add: check_issue_templates_def snd_probe)

lemma snd_check_pull_request_templates:
  "snd (check_pull_request_templates env s) =
     s\<lparr>trace := trace s @ [Request (Get (base_url (self s) @ ''/contents/.github/PULL_REQUEST_TEMPLATE.md'') (headers (self s)))]\<rparr>"
  by (simp add: check_pull_request_templates_def snd_probe)

lemma snd_check_changelog:
  "snd (check_changelog env s) =
     s\<lparr>trace := trace s @ [Request (Get (base_url (self s) @ ''/contents/CHANGELOG.md'') (headers (self s)))]\<rparr>"
  by (simp add: check_changelog_def snd_probe)

lemma reads_Nil [simp]: "reads s [] = s"
  by (simp add: reads_def)

lemma reads_reads [simp]: "reads (reads s us) vs = reads s (us @ vs)"
  by (simp add: reads_def)

lemma self_reads [simp]: "self (reads s us) = self s"
  by (simp add: reads_def)

lemma trace_reads [simp]:
  "trace (reads s us) = trace s @ map (\<lambda>u. Request (Get u (headers (self s)))) us"
  by (simp add: reads_def)

lemma snd_fetch_data_reads: "snd (fetch_data env url s) = reads s [url]"
  by (simp add: snd_fetch_data reads_def)

lemma only_readsD: "only_reads m \<Longrightarrow> \<exists>us. snd (m s) = reads s us"
  by (simp add: only_reads_def)

lemma only_reads_stateless: "stateless m \<Longrightarrow> only_reads m"
  unfolding only_reads_def stateless_def by (metis reads_Nil)

lemma only_reads_ret [simp]: "only_reads (ret x)"
  by (simp add: only_reads_stateless)

lemma only_reads_lift [simp]: "only_reads (lift r)"
  by (simp add: only_reads_stateless)

lemma only_reads_fetch_data [simp]: "only_reads (fetch_data env url)"
  unfolding only_reads_def using snd_fetch_data_reads by blast

lemma only_reads_fetch_data_at [simp]: "only_reads (fetch_data_at env v)"
  by (cases v) simp_all

lemma only_reads_bind [simp]:
  assumes "only_reads m" and "\<And>x. only_reads (f x)"
  shows "only_reads (bind m f)"
  unfolding only_reads_def
proof
  fix s
  obtain r s1 where m: "m s = (r, s1)" by (cases "m s")
  obtain us where us: "s1 = reads s us"
    using only_readsD [OF assms(1), of s] m by auto
  show "\<exists>us. snd (bind m f s) = reads s us"
  proof (cases r)
    case (Inl e)
    with m us show ?thesis by (auto simp: bind_def)
  next
    case (Inr x)
    obtain vs where "snd (f x s1) = reads s1 vs"
      using only_readsD [OF assms(2)] by blast
    with m us Inr have "snd (bind m f s) = reads s (us @ vs)"
      by (simp add: bind_def)
    then show ?thesis ..
  qed
qed

lemma only_reads_except [simp]:
  assumes "only_reads m" and "only_reads h"
  shows "only_reads (except_HTTPError m h)"
  unfolding only_reads_def
proof
  fix s
  obtain r s1 where m: "m s = (r, s1)" by (cases "m s")
  obtain us where us: "s1 = reads s us"
    using only_readsD [OF assms(1), of s] m by auto
  obtain vs where vs: "snd (h s1) = reads s1 vs"
    using only_readsD [OF assms(2)] by blast
  have "snd (except_HTTPError m h s) = s1 \<or> snd (except_HTTPError m h s) = snd (h s1)"
    using m by (auto simp: except_HTTPError_def split: sum.splits error.splits)
  then show "\<exists>us. snd (except_HTTPError m h s) = reads s us"
    using us vs by (metis reads_reads)
qed

lemma only_reads_if [simp]:
  "only_reads m \<Longrightarrow> only_reads n \<Longrightarrow> only_reads (if c then m else n)"
  by simp

lemma only_reads_eta: "only_reads (\<lambda>s. m s) = only_reads m"
  by simp

lemma only_reads_issues_loop [simp]: "only_reads (issues_loop env issues acc)"
  by (induction issues arbitrary: acc) simp_all

lemma only_reads_pulls_loop [simp]: "only_reads (pulls_loop env pulls acc)"
  by (induction pulls arbitrary: acc) simp_all

lemma only_reads_dependencies_loop [simp]: "only_reads (dependencies_loop env files acc)"
proof (induction files arbitrary: acc)
  case (Cons f fs)
  have "dependencies_loop env (f # fs) acc =
     bind (\<lambda>s. except_HTTPError
           (bind (fetch_data env (base_url (self s) @ ''/contents/'' @ f))
              (\<lambda>response. ret (f @ '' found and needs further analysis.'')))
           (ret (f @ '' is missing.'')) s)
        (\<lambda>status. dependencies_loop env fs (acc @ [status]))"
    by (rule ext) (simp add: bind_def)
  moreover have "only_reads (\<lambda>s. except_HTTPError
           (bind (fetch_data env (base_url (self s) @ ''/contents/'' @ f))
              (\<lambda>response. ret (f @ '' found and needs further analysis.'')))
           (ret (f @ '' is missing.'')) s)"
    unfolding only_reads_def
    by (metis (no_types, lifting) only_reads_def only_reads_except only_reads_bind
        only_reads_fetch_data only_reads_ret)
  ultimately show ?case using Cons by simp
qed simp

section \<open>The remote resource client\<close>

text \<open>
  C1, at a manifest whose read is answered with status 304. The status is neither 200 nor
  in the range for which \<open>raise_for_status\<close> raises, so \<open>fetch_data\<close> returns \<open>None\<close> and
  raises nothing, and \<open>check_dependencies\<close> reports both manifests as found: a status
  outside 2xx is not classified as missing.
\<close>

theorem manifest_not_modified_is_found:
  "fst (fetch_data (answering not_modified)
          ''https://api.github.com/repos/octo/demo/contents/package.json'' world0) = Inr JNull
   \<and> fst (check_dependencies (answering not_modified) world0) =
       Inr [''package.json found and needs further analysis.'',
            ''requirements.txt found and needs further analysis.'']"
  by code_simp

section \<open>The client state\<close>

lemma only_reads_check_documentation: "only_reads (check_documentation env)"
  unfolding only_reads_def check_documentation_def by (intro allI only_readsD) (simp add: Let_def)

lemma only_reads_analyze_issues: "only_reads (analyze_issues env)"
  unfolding only_reads_def analyze_issues_def by (intro allI only_readsD) simp

lemma only_reads_analyze_pull_requests: "only_reads (analyze_pull_requests env)"
  unfolding only_reads_def analyze_pull_requests_def by (intro allI only_readsD) simp

lemma only_reads_check_dependencies: "only_reads (check_dependencies env)"
  by (simp add: check_dependencies_def)

lemma only_reads_check_security: "only_reads (check_security env)"
  unfolding only_reads_def check_security_def by (intro allI only_readsD) simp

lemma only_reads_check_license: "only_reads (check_license env)"
  unfolding only_reads_def check_license_def by (intro allI only_readsD) simp

lemma only_reads_check_contributing_guidelines: "only_reads (check_contributing_guidelines env)"
  unfolding only_reads_def check_contributing_guidelines_def by (intro allI only_readsD) simp

lemma only_reads_check_issue_templates: "only_reads (check_issue_templates env)"
  unfolding only_reads_def check_issue_templates_def by (intro allI only_readsD) simp

lemma only_reads_check_pull_request_templates: "only_reads (check_pull_request_templates env)"
  unfolding only_reads_def check_pull_request_templates_def by (intro allI only_readsD) simp

lemma only_reads_check_changelog: "only_reads (check_changelog env)"
  unfolding only_reads_def check_changelog_def by (intro allI only_readsD) simp

lemmas only_reads_checks =
  only_reads_check_documentation only_reads_analyze_issues only_reads_analyze_pull_requests
  only_reads_check_dependencies only_reads_check_security only_reads_check_license
  only_reads_check_contributing_guidelines only_reads_check_issue_templates
  only_reads_check_pull_request_templates only_reads_check_changelog

lemma self_only_reads: "only_reads m \<Longrightarrow> self (snd (m s)) = self s"
  using only_readsD [of m s] by auto

lemma dict_update_twice: "dict_update k v (dict_update k v ps) = dict_update k v ps"
  by (induction ps) auto

lemma map_of_dict_update: "map_of (dict_update k v ps) = (map_of ps)(k \<mapsto> v)"
  by (induction ps) (auto simp: fun_eq_iff)

lemma with_accept_twice [simp]: "with_accept (with_accept a) = with_accept a"
  by (simp add: with_accept_def dict_update_twice)

lemma self_create_issue: "self (snd (create_issue env title body s)) = with_accept (self s)"
  by (simp add: create_issue_def with_accept_def Let_def print_def split: option.splits)

lemma self_print: "self (snd (print line s)) = self s"
  by (simp add: print_def)

lemma accepting_only_reads: "only_reads m \<Longrightarrow> accepting m"
  by (simp add: accepting_def self_only_reads)

lemma accepting_create_issue [simp]: "accepting (create_issue env title body)"
  by (simp add: accepting_def self_create_issue)

lemma accepting_ret [simp]: "accepting (ret x)"
  by (simp add: accepting_only_reads)

lemma accepting_if_then [simp]: "accepting m \<Longrightarrow> accepting (if_then c m)"
  by (simp add: if_then_def)

lemma accepting_bind [simp]:
  assumes "accepting m" and "\<And>x. accepting (f x)"
  shows "accepting (bind m f)"
  unfolding accepting_def
proof
  fix s
  obtain r s1 where m: "m s = (r, s1)" by (cases "m s")
  have s1: "self s1 = self s \<or> self s1 = with_accept (self s)"
    using assms(1) m unfolding accepting_def by (metis snd_conv)
  show "self (snd (bind m f s)) = self s \<or> self (snd (bind m f s)) = with_accept (self s)"
  proof (cases r)
    case (Inl e)
    with m s1 show ?thesis by (simp add: bind_def)
  next
    case (Inr x)
    have "self (snd (f x s1)) = self s1 \<or> self (snd (f x s1)) = with_accept (self s1)"
      using assms(2) unfolding accepting_def by blast
    with m Inr s1 show ?thesis by (auto simp: bind_def)
  qed
qed

lemma accepting_print [simp]: "accepting (\<lambda>s. print (line s) s)"
  by (simp add: accepting_def print_def)

lemma accepting_create_issues [simp]:
  "accepting (create_issues env d i deps sec l c it p ch)"
  by (simp add: create_issues_def)

lemma accepting_report_findings: "accepting (report_findings env)"
  unfolding report_findings_def
  by (intro accepting_bind accepting_only_reads only_reads_checks accepting_print
      accepting_create_issues)

text \<open>
  C2, as stated, fails: \<open>create_issue\<close> runs \<open>self.headers.update({'Accept': ...})\<close>, so
  after one ticket the headers of the object are no longer those \<open>__init__\<close> set.
\<close>

theorem create_issue_changes_headers:
  "headers (self (snd (create_issue (answering created) ''Changelog missing''
      ''Changelog is missing.'' world0))) \<noteq> headers (self world0)"
  by code_simp

text \<open>
  C2, amended. \<open>fetch_data\<close> and the ten checks leave every attribute of the object as it
  was. \<open>create_issue\<close> leaves \<open>token\<close>, \<open>repo_name\<close> and \<open>base_url\<close> as they were and
  changes \<open>headers\<close> in one way: the key \<open>Accept\<close> is set to
  \<open>application/vnd.github.v3+json\<close>, every other header keeps its value. After
  \<open>report_findings\<close> the object is unchanged (no ticket was due, or the run ended before)
  or differs from the initial one by that header alone.
\<close>

theorem client_state_after_operations:
  "self (snd (fetch_data env url s)) = self s
   \<and> self (snd (check_documentation env s)) = self s
   \<and> self (snd (analyze_issues env s)) = self s
   \<and> self (snd (analyze_pull_requests env s)) = self s
   \<and> self (snd (check_dependencies env s)) = self s
   \<and> self (snd (check_security env s)) = self s
   \<and> self (snd (check_license env s)) = self s
   \<and> self (snd (check_contributing_guidelines env s)) = self s
   \<and> self (snd (check_issue_templates env s)) = self s
   \<and> self (snd (check_pull_request_templates env s)) = self s
   \<and> self (snd (check_changelog env s)) = self s
   \<and> self (snd (create_issue env title body s)) =
       (self s)\<lparr>headers :=
         dict_update ''Accept'' ''application/vnd.github.v3+json'' (headers (self s))\<rparr>
   \<and> map_of (headers (self (snd (create_issue env title body s)))) =
       (map_of (headers (self s)))(''Accept'' \<mapsto> ''application/vnd.github.v3+json'')
   \<and> (self (snd (report_findings env s)) = self s
      \<or> self (snd (report_findings env s)) =
         (self s)\<lparr>headers :=
           dict_update ''Accept'' ''application/vnd.github.v3+json'' (headers (self s))\<rparr>)"
proof -
  have "self (snd (report_findings env s)) = self s
      \<or> self (snd (report_findings env s)) = with_accept (self s)"
    using accepting_report_findings unfolding accepting_def by blast
  then show ?thesis
    by (simp add: self_only_reads only_reads_checks self_create_issue with_accept_def
        map_of_dict_update)
qed

section \<open>The documentation check\<close>

lemma str_contains_sublist: "str_contains s sub \<longleftrightarrow> sublist sub s"
  by (induction s) (simp_all add: sublist_Cons_right)

lemma mentions_iff [code]: "mentions text word \<longleftrightarrow> str_contains (lower text) word"
proof
  assume "mentions text word"
  then obtain run where "sublist run text" "lower run = word"
    by (auto simp: mentions_def)
  then show "str_contains (lower text) word"
    unfolding str_contains_sublist lower_def using map_mono_sublist by blast
next
  assume "str_contains (lower text) word"
  then have "sublist word (map lower_char text)"
    by (simp add: str_contains_sublist lower_def)
  then obtain run where "sublist run text" "word = map lower_char run"
    using sublist_map_rightE by blast
  then show "mentions text word"
    by (auto simp: mentions_def lower_def)
qed

lemma fetch_data_200:
  assumes "remote env (trace s) (Get url (headers (self s))) = Some r"
    and "status_code r = 200" and "json_body r = Some v"
  shows "fetch_data env url s = (Inr v, reads s [url])"
  using assms by (simp add: fetch_data_def Let_def reads_def)

lemma fetch_data_error:
  assumes "remote env (trace s) (Get url (headers (self s))) = Some r"
    and "400 \<le> status_code r" and "status_code r < 600"
  shows "fetch_data env url s = (Inl (HTTPError (status_code r)), reads s [url])"
  using assms by (simp add: fetch_data_def Let_def reads_def raise_for_status_def)

lemma check_documentation_decoded:
  assumes "remote env (trace s) (Get (base_url (self s) @ ''/readme'') (headers (self s))) = Some r"
    and "status_code r = 200" and "json_body r = Some body"
    and "subscript body ''content'' = Inr (JStr payload)"
    and "b64decode_utf8 env payload = Some readme"
  shows "fst (check_documentation env s) =
     Inr (let missing_sections = filter (\<lambda>section. \<not> mentions readme section) essential_sections
          in if missing_sections = []
             then ''README.md is present and contains all essential sections.''
             else ''README.md is present but missing sections: ''
                  @ join '', '' missing_sections @ ''.'')"
  using assms(4,5) fetch_data_200 [OF assms(1-3)]
  by (simp add: check_documentation_def except_HTTPError_def bind_def lift_def ret_def
      mentions_iff Let_def)

text \<open>
  C4. When the README is fetched and decoded and each of the five keywords occurs in it in
  some casing, the documentation check answers that all essential sections are present.
\<close>

theorem documentation_complete:
  assumes "remote env (trace s) (Get (base_url (self s) @ ''/readme'') (headers (self s))) = Some r"
    and "status_code r = 200" and "json_body r = Some body"
    and "subscript body ''content'' = Inr (JStr payload)"
    and "b64decode_utf8 env payload = Some readme"
    and "\<forall>word \<in> set essential_sections. mentions readme word"
  shows "fst (check_documentation env s) =
     Inr ''README.md is present and contains all essential sections.''"
proof -
  have "filter (\<lambda>section. \<not> mentions readme section) essential_sections = []"
    using assms(6) by (simp add: filter_empty_conv)
  then show ?thesis
    using check_documentation_decoded [OF assms(1-5)] by simp
qed

theorem documentation_complete_witness:
  "mentions ''Installation, Usage, Contributing, LICENSE, ChangeLog'' ''changelog''
   \<and> fst (check_documentation (answering (serving readme_all_sections)) world0) =
       Inr ''README.md is present and contains all essential sections.''"
proof
  show "mentions ''Installation, Usage, Contributing, LICENSE, ChangeLog'' ''changelog''"
    by code_simp
  show "fst (check_documentation (answering (serving readme_all_sections)) world0) =
       Inr ''README.md is present and contains all essential sections.''"
  proof (rule documentation_complete [where
        r = "ok (JObj [(''name'', JStr ''README.md''), (''content'', JStr
          ''SW5zdGFsbGF0aW9uLCBVc2FnZSwgQ29udHJpYnV0aW5nLCBMSUNFTlNFLCBDaGFuZ2VMb2c='')])"
        and payload = "''SW5zdGFsbGF0aW9uLCBVc2FnZSwgQ29udHJpYnV0aW5nLCBMSUNFTlNFLCBDaGFuZ2VMb2c=''"
        and readme = "''Installation, Usage, Contributing, LICENSE, ChangeLog''"])
    show "remote (answering (serving readme_all_sections)) (trace world0)
        (Get (base_url (self world0) @ ''/readme'') (headers (self world0))) =
        Some (ok (JObj [(''name'', JStr ''README.md''), (''content'', JStr
          ''SW5zdGFsbGF0aW9uLCBVc2FnZSwgQ29udHJpYnV0aW5nLCBMSUNFTlNFLCBDaGFuZ2VMb2c='')]))"
      by code_simp
    show "status_code (ok (JObj [(''name'', JStr ''README.md''), (''content'', JStr
          ''SW5zdGFsbGF0aW9uLCBVc2FnZSwgQ29udHJpYnV0aW5nLCBMSUNFTlNFLCBDaGFuZ2VMb2c='')])) = 200"
      by (simp add: ok_def)
    show "json_body (ok (JObj [(''name'', JStr ''README.md''), (''content'', JStr
          ''SW5zdGFsbGF0aW9uLCBVc2FnZSwgQ29udHJpYnV0aW5nLCBMSUNFTlNFLCBDaGFuZ2VMb2c='')])) =
        Some (JObj [(''name'', JStr ''README.md''), (''content'', JStr
          ''SW5zdGFsbGF0aW9uLCBVc2FnZSwgQ29udHJpYnV0aW5nLCBMSUNFTlNFLCBDaGFuZ2VMb2c='')])"
      by (simp add: ok_def)
    show "subscript (JObj [(''name'', JStr ''README.md''), (''content'', JStr
          ''SW5zdGFsbGF0aW9uLCBVc2FnZSwgQ29udHJpYnV0aW5nLCBMSUNFTlNFLCBDaGFuZ2VMb2c='')])
        ''content'' =
        Inr (JStr ''SW5zdGFsbGF0aW9uLCBVc2FnZSwgQ29udHJpYnV0aW5nLCBMSUNFTlNFLCBDaGFuZ2VMb2c='')"
      by simp
    show "b64decode_utf8 (answering (serving readme_all_sections))
        ''SW5zdGFsbGF0aW9uLCBVc2FnZSwgQ29udHJpYnV0aW5nLCBMSUNFTlNFLCBDaGFuZ2VMb2c='' =
        Some ''Installation, Usage, Contributing, LICENSE, ChangeLog''"
      by code_simp
    show "\<forall>word \<in> set essential_sections.
        mentions ''Installation, Usage, Contributing, LICENSE, ChangeLog'' word"
      by code_simp
  qed
qed

text \<open>
  C5. When the keywords that do not occur in the fetched and decoded README are exactly
  \<open>license\<close> and \<open>changelog\<close>, the message names these two and no other, \<open>license\<close>
  first.
\<close>

theorem documentation_missing_license_changelog:
  assumes "remote env (trace s) (Get (base_url (self s) @ ''/readme'') (headers (self s))) = Some r"
    and "status_code r = 200" and "json_body r = Some body"
    and "subscript body ''content'' = Inr (JStr payload)"
    and "b64decode_utf8 env payload = Some readme"
    and "{word \<in> set essential_sections. \<not> mentions readme word} = {''license'', ''changelog''}"
  shows "fst (check_documentation env s) =
     Inr ''README.md is present but missing sections: license, changelog.''"
proof -
  have absent: "\<not> mentions readme word \<longleftrightarrow> word = ''license'' \<or> word = ''changelog''"
    if "word \<in> set essential_sections" for word
    using assms(6) that by blast
  have "mentions readme ''installation''" "mentions readme ''usage''"
    "mentions readme ''contributing''" "\<not> mentions readme ''license''"
    "\<not> mentions readme ''changelog''"
    using absent [of "''installation''"] absent [of "''usage''"] absent [of "''contributing''"]
      absent [of "''license''"] absent [of "''changelog''"]
    by (simp_all add: essential_sections_def)
  then have "filter (\<lambda>section. \<not> mentions readme section) essential_sections =
      [''license'', ''changelog'']"
    by (simp add: essential_sections_def)
  then show ?thesis
    using check_documentation_decoded [OF assms(1-5)] by simp
qed

theorem documentation_missing_license_changelog_witness:
  "\<not> mentions ''Installation, Usage, Contributing'' ''license''
   \<and> fst (check_documentation (answering (serving readme_three_sections)) world0) =
       Inr ''README.md is present but missing sections: license, changelog.''"
proof
  show "\<not> mentions ''Installation, Usage, Contributing'' ''license''"
    by code_simp
  show "fst (check_documentation (answering (serving readme_three_sections)) world0) =
       Inr ''README.md is present but missing sections: license, changelog.''"
  proof (rule documentation_missing_license_changelog [where
        r = "ok (JObj [(''name'', JStr ''README.md''), (''content'', JStr
          ''SW5zdGFsbGF0aW9uLCBVc2FnZSwgQ29udHJpYnV0aW5n'')])"
        and payload = "''SW5zdGFsbGF0aW9uLCBVc2FnZSwgQ29udHJpYnV0aW5n''"
        and readme = "''Installation, Usage, Contributing''"])
    show "remote (answering (serving readme_three_sections)) (trace world0)
        (Get (base_url (self world0) @ ''/readme'') (headers (self world0))) =
        Some (ok (JObj [(''name'', JStr ''README.md''), (''content'', JStr
          ''SW5zdGFsbGF0aW9uLCBVc2FnZSwgQ29udHJpYnV0aW5n'')]))"
      by code_simp
    show "status_code (ok (JObj [(''name'', JStr ''README.md''), (''content'', JStr
          ''SW5zdGFsbGF0aW9uLCBVc2FnZSwgQ29udHJpYnV0aW5n'')])) = 200"
      by (simp add: ok_def)
    show "json_body (ok (JObj [(''name'', JStr ''README.md''), (''content'', JStr
          ''SW5zdGFsbGF0aW9uLCBVc2FnZSwgQ29udHJpYnV0aW5n'')])) =
        Some (JObj [(''name'', JStr ''README.md''), (''content'', JStr
          ''SW5zdGFsbGF0aW9uLCBVc2FnZSwgQ29udHJpYnV0aW5n'')])"
      by (simp add: ok_def)
    show "subscript (JObj [(''name'', JStr ''README.md''), (''content'', JStr
          ''SW5zdGFsbGF0aW9uLCBVc2FnZSwgQ29udHJpYnV0aW5n'')]) ''content'' =
        Inr (JStr ''SW5zdGFsbGF0aW9uLCBVc2FnZSwgQ29udHJpYnV0aW5n'')"
      by simp
    show "b64decode_utf8 (answering (serving readme_three_sections))
        ''SW5zdGFsbGF0aW9uLCBVc2FnZSwgQ29udHJpYnV0aW5n'' =
        Some ''Installation, Usage, Contributing''"
      by code_simp
    have "mentions ''Installation, Usage, Contributing'' ''installation''"
      "mentions ''Installation, Usage, Contributing'' ''usage''"
      "mentions ''Installation, Usage, Contributing'' ''contributing''"
      "\<not> mentions ''Installation, Usage, Contributing'' ''license''"
      "\<not> mentions ''Installation, Usage, Contributing'' ''changelog''"
      by code_simp+
    then show "{word \<in> set essential_sections.
        \<not> mentions ''Installation, Usage, Contributing'' word} = {''license'', ''changelog''}"
      by (auto simp: essential_sections_def)
  qed
qed

section \<open>The issue resolution check\<close>

lemma bind_Inr: "m s = (Inr x, s1) \<Longrightarrow> bind m f s = f x s1"
  by (simp add: bind_def)

lemma bind_Inl: "m s = (Inl e, s1) \<Longrightarrow> bind m f s = (Inl e, s1)"
  by (simp add: bind_def)

lemma any_body_contains_texts:
  "list_all (\<lambda>comment. comment_text comment \<noteq> None) comments \<Longrightarrow>
   any_body_contains word comments = Inr (thread_mentions comments word)"
proof (induction comments)
  case Nil
  show ?case by (simp add: thread_mentions_def)
next
  case (Cons comment rest)
  then obtain t where t: "subscript comment ''body'' = Inr (JStr t)"
    by (auto simp: comment_text_def split: sum.splits json.splits)
  from Cons have "any_body_contains word rest = Inr (thread_mentions rest word)"
    by simp
  with t show ?case
    by (simp add: thread_mentions_def comment_text_def mentions_iff)
qed

lemma any_comment_texts:
  "list_all (\<lambda>comment. comment_text comment \<noteq> None) comments \<Longrightarrow>
   any_comment word (JList comments) = Inr (thread_mentions comments word)"
  by (simp add: any_comment_def any_body_contains_texts)

lemma issues_loop_served:
  assumes "\<forall>issue \<in> set issues. serves_thread env (headers (self s)) issue (thread issue)"
  shows "fst (issues_loop env issues acc s) =
     Inr (acc @ filter (\<lambda>issue. \<not> thread_mentions (thread issue) ''resolved'') issues)"
  using assms
proof (induction issues arbitrary: acc s)
  case Nil
  show ?case by (simp add: ret_def)
next
  case (Cons issue rest)
  from Cons.prems obtain url where
    url: "subscript issue ''comments_url'' = Inr (JStr url)" and
    served: "\<And>history. \<exists>r. remote env history (Get url (headers (self s))) = Some r
        \<and> status_code r = 200 \<and> json_body r = Some (JList (thread issue))" and
    texts: "list_all (\<lambda>comment. comment_text comment \<noteq> None) (thread issue)"
    by (auto simp: serves_thread_def)
  obtain r where "remote env (trace s) (Get url (headers (self s))) = Some r"
    "status_code r = 200" "json_body r = Some (JList (thread issue))"
    using served by blast
  then have fetched: "fetch_data env url s = (Inr (JList (thread issue)), reads s [url])"
    by (rule fetch_data_200)
  have "\<forall>issue \<in> set rest.
      serves_thread env (headers (self (reads s [url]))) issue (thread issue)"
    using Cons.prems by simp
  then have "fst (issues_loop env rest acc' (reads s [url])) =
      Inr (acc' @ filter (\<lambda>issue. \<not> thread_mentions (thread issue) ''resolved'') rest)" for acc'
    by (rule Cons.IH)
  moreover have "bind (fetch_data env url) k s = k (JList (thread issue)) (reads s [url])"
    for k :: "json \<Rightarrow> json list prog"
    using fetched by (rule bind_Inr)
  ultimately show ?case
    using url texts by (simp add: bind_lift any_comment_texts)
qed

lemma inactive_filter_timestamps:
  "list_all has_timestamps issues \<Longrightarrow>
   inactive_filter env issues = Inr (filter updated_before_created issues)"
proof (induction issues)
  case Nil
  show ?case by simp
next
  case (Cons issue rest)
  then obtain u c where "subscript issue ''updated_at'' = Inr (JStr u)"
    "subscript issue ''created_at'' = Inr (JStr c)"
    by (auto simp: has_timestamps_def split: sum.splits json.splits)
  with Cons show ?case
    by (simp add: updated_before_created_def)
qed

lemma analyze_issues_served:
  assumes "remote env (trace s)
      (Get (base_url (self s) @ ''/issues?state=open'') (headers (self s))) = Some r"
    and "status_code r = 200" and "json_body r = Some (JList issues)"
    and "\<forall>issue \<in> set issues. serves_thread env (headers (self s)) issue (thread issue)"
    and "list_all has_timestamps issues"
  shows "fst (analyze_issues env s) =
     Inr (let unresolved_issues =
                filter (\<lambda>issue. \<not> thread_mentions (thread issue) ''resolved'') issues;
              inactive_issues = filter updated_before_created unresolved_issues
          in if unresolved_issues = [] then ''No unresolved open issues.''
             else if inactive_issues \<noteq> []
             then ''Found '' @ str_of_nat (length unresolved_issues)
                  @ '' unresolved open issues, including ''
                  @ str_of_nat (length inactive_issues) @ '' with long inactivity.''
             else ''Found '' @ str_of_nat (length unresolved_issues)
                  @ '' unresolved open issues.'')"
proof -
  let ?url = "base_url (self s) @ ''/issues?state=open''"
  let ?unresolved = "filter (\<lambda>issue. \<not> thread_mentions (thread issue) ''resolved'') issues"
  have fetched: "fetch_data env ?url s = (Inr (JList issues), reads s [?url])"
    using assms(1-3) by (rule fetch_data_200)
  have "\<forall>issue \<in> set issues.
      serves_thread env (headers (self (reads s [?url]))) issue (thread issue)"
    using assms(4) by simp
  then have "fst (issues_loop env issues [] (reads s [?url])) = Inr ([] @ ?unresolved)"
    by (rule issues_loop_served)
  then obtain s1 where loop: "issues_loop env issues [] (reads s [?url]) = (Inr ?unresolved, s1)"
    by (cases "issues_loop env issues [] (reads s [?url])") simp
  have "list_all has_timestamps ?unresolved"
    using assms(5) by (simp add: list_all_iff)
  then have "inactive_filter env ?unresolved = Inr (filter updated_before_created ?unresolved)"
    by (rule inactive_filter_timestamps)
  moreover have "bind (fetch_data env ?url) k s = k (JList issues) (reads s [?url])"
    for k :: "json \<Rightarrow> string prog"
    using fetched by (rule bind_Inr)
  moreover have "bind (issues_loop env issues []) k (reads s [?url]) = k ?unresolved s1"
    for k :: "json list \<Rightarrow> string prog"
    using loop by (rule bind_Inr)
  ultimately show ?thesis
    by (simp add: analyze_issues_def bind_lift ret_def Let_def)
qed

lemma remote_answering [simp]: "remote (answering f) history = f"
  by (simp add: answering_def)

lemma serving_Get:
  "serving resources (Get url h) =
     (case map_of resources url of Some r \<Rightarrow> Some r | None \<Rightarrow> Some not_found)"
  by (simp add: serving_def)

lemma status_code_ok: "status_code (ok v) = 200"
  by (simp add: ok_def)

lemma json_body_ok: "json_body (ok v) = Some v"
  by (simp add: ok_def)

lemma demo_unsolved_listing:
  "remote (answering (serving demo_unsolved)) (trace world0)
     (Get (base_url (self world0) @ ''/issues?state=open'') (headers (self world0))) =
   Some (ok (JList [issue7, issue9]))"
  by code_simp

lemma demo_unsolved_threads:
  "\<forall>issue \<in> set [issue7, issue9].
     serves_thread (answering (serving demo_unsolved)) (headers (self world0)) issue
       (open_threads issue)"
  by (simp add: serves_thread_def serving_Get demo_unsolved_def issue7_def issue9_def
      open_threads_def comment_def comment_text_def ok_def)

lemma demo_timestamps: "list_all has_timestamps [issue7, issue9]"
  by code_simp

text \<open>
  C6. The open issues are listed, the thread of each is served, each issue has its two
  timestamps, and no thread mentions \<open>resolved\<close>. Then the loop of the check keeps every
  issue as unresolved, and the message is \<open>No unresolved open issues.\<close> for the empty
  list and otherwise gives the number of open issues as the number of unresolved ones.
\<close>

theorem quiet_threads_all_unresolved:
  assumes "remote env (trace s)
      (Get (base_url (self s) @ ''/issues?state=open'') (headers (self s))) = Some r"
    and "status_code r = 200" and "json_body r = Some (JList issues)"
    and "\<forall>issue \<in> set issues. serves_thread env (headers (self s)) issue (thread issue)"
    and "list_all has_timestamps issues"
    and "\<forall>issue \<in> set issues. \<not> thread_mentions (thread issue) ''resolved''"
  shows "fst (issues_loop env issues [] (reads s [base_url (self s) @ ''/issues?state=open'']))
       = Inr issues
     \<and> fst (analyze_issues env s) =
       Inr (if issues = [] then ''No unresolved open issues.''
            else if filter updated_before_created issues = []
            then ''Found '' @ str_of_nat (length issues) @ '' unresolved open issues.''
            else ''Found '' @ str_of_nat (length issues)
                 @ '' unresolved open issues, including ''
                 @ str_of_nat (length (filter updated_before_created issues))
                 @ '' with long inactivity.'')"
proof -
  let ?url = "base_url (self s) @ ''/issues?state=open''"
  have all: "filter (\<lambda>issue. \<not> thread_mentions (thread issue) ''resolved'') issues = issues"
    using assms(6) by (simp add: filter_id_conv)
  have "\<forall>issue \<in> set issues.
      serves_thread env (headers (self (reads s [?url]))) issue (thread issue)"
    using assms(4) by simp
  then have "fst (issues_loop env issues [] (reads s [?url])) =
      Inr ([] @ filter (\<lambda>issue. \<not> thread_mentions (thread issue) ''resolved'') issues)"
    by (rule issues_loop_served)
  then show ?thesis
    using analyze_issues_served [OF assms(1-5)] by (simp add: all Let_def)
qed

theorem quiet_threads_all_unresolved_witness:
  "\<not> thread_mentions (open_threads issue9) ''resolved''
   \<and> fst (analyze_issues (answering (serving demo_unsolved)) world0) =
       Inr ''Found 2 unresolved open issues, including 1 with long inactivity.''"
proof -
  have quiet: "\<forall>issue \<in> set [issue7, issue9]. \<not> thread_mentions (open_threads issue) ''resolved''"
    by code_simp
  have counted: "filter updated_before_created [issue7, issue9] = [issue7]"
    "str_of_nat (length [issue7, issue9]) = ''2''" "str_of_nat (length [issue7]) = ''1''"
    by code_simp+
  have "fst (analyze_issues (answering (serving demo_unsolved)) world0) =
      Inr ''Found 2 unresolved open issues, including 1 with long inactivity.''"
    using quiet_threads_all_unresolved [OF demo_unsolved_listing status_code_ok json_body_ok
        demo_unsolved_threads demo_timestamps quiet]
    unfolding counted by simp
  with quiet show ?thesis by simp
qed

text \<open>
  C7, as stated, fails for an issue that is classified resolved. Issue 7 records an update
  before its creation, and a comment on it says \<open>Resolved in 1.2\<close>: the check reports one
  unresolved issue (issue 9) and no inactive one.
\<close>

theorem resolved_backdated_issue_not_counted:
  "updated_before_created issue7
   \<and> fst (analyze_issues (answering (serving demo_resolved)) world0) =
       Inr ''Found 1 unresolved open issues.''"
  by code_simp

text \<open>
  C7, amended. Under the same conditions on the listing, the threads and the timestamps:
  every issue that is classified unresolved (its thread does not mention \<open>resolved\<close>) and
  whose last-updated timestamp is smaller than its creation timestamp is among the
  inactive issues the message counts, whatever the threads of the other issues say.
\<close>

theorem unresolved_backdated_issue_is_inactive:
  assumes "remote env (trace s)
      (Get (base_url (self s) @ ''/issues?state=open'') (headers (self s))) = Some r"
    and "status_code r = 200" and "json_body r = Some (JList issues)"
    and "\<forall>issue \<in> set issues. serves_thread env (headers (self s)) issue (thread issue)"
    and "list_all has_timestamps issues"
    and "issue \<in> set issues"
    and "\<not> thread_mentions (thread issue) ''resolved''"
    and "updated_before_created issue"
  shows "let unresolved_issues =
               filter (\<lambda>issue. \<not> thread_mentions (thread issue) ''resolved'') issues;
             inactive_issues = filter updated_before_created unresolved_issues
         in issue \<in> set inactive_issues
            \<and> fst (analyze_issues env s) =
                Inr (''Found '' @ str_of_nat (length unresolved_issues)
                     @ '' unresolved open issues, including ''
                     @ str_of_nat (length inactive_issues) @ '' with long inactivity.'')"
proof -
  let ?unresolved = "filter (\<lambda>issue. \<not> thread_mentions (thread issue) ''resolved'') issues"
  have "issue \<in> set (filter updated_before_created ?unresolved)"
    using assms(6-8) by simp
  moreover from this have "filter updated_before_created ?unresolved \<noteq> []" "?unresolved \<noteq> []"
    by (auto simp: filter_empty_conv)
  ultimately show ?thesis
    using analyze_issues_served [OF assms(1-5)] by (simp add: Let_def)
qed

theorem unresolved_backdated_issue_is_inactive_witness:
  "updated_before_created issue7
   \<and> fst (analyze_issues (answering (serving demo_unsolved)) world0) =
       Inr ''Found 2 unresolved open issues, including 1 with long inactivity.''"
proof -
  have backdated: "updated_before_created issue7"
    and quiet: "\<not> thread_mentions (open_threads issue7) ''resolved''"
    by code_simp+
  have listed: "issue7 \<in> set [issue7, issue9]"
    by simp
  have counted:
    "filter (\<lambda>issue. \<not> thread_mentions (open_threads issue) ''resolved'') [issue7, issue9] =
      [issue7, issue9]"
    "filter updated_before_created [issue7, issue9] = [issue7]"
    "str_of_nat (length [issue7, issue9]) = ''2''" "str_of_nat (length [issue7]) = ''1''"
    by code_simp+
  have "fst (analyze_issues (answering (serving demo_unsolved)) world0) =
      Inr ''Found 2 unresolved open issues, including 1 with long inactivity.''"
    using unresolved_backdated_issue_is_inactive [OF demo_unsolved_listing status_code_ok
        json_body_ok demo_unsolved_threads demo_timestamps listed quiet backdated]
    unfolding Let_def counted by simp
  with backdated show ?thesis by simp
qed

section \<open>The order of a run\<close>

lemma followsI:
  assumes "\<And>s r s'. m s = (r, s') \<Longrightarrow>
      base_url (self s') = base_url (self s)
      \<and> (\<exists>d. trace s' = trace s @ d
            \<and> (\<exists>plan \<in> plans (base_url (self s)).
                  prefix (map action_of d) plan \<and> (isl r \<or> map action_of d = plan)))"
  shows "follows m plans"
  unfolding follows_def
proof (intro allI)
  fix s
  obtain r s' where m: "m s = (r, s')" by (cases "m s")
  from assms [OF m] obtain d plan where
    "base_url (self s') = base_url (self s)" "trace s' = trace s @ d"
    "plan \<in> plans (base_url (self s))" "prefix (map action_of d) plan"
    "isl r \<or> map action_of d = plan"
    by blast
  with m show "base_url (self (snd (m s))) = base_url (self s)
      \<and> take (length (trace s)) (trace (snd (m s))) = trace s
      \<and> (\<exists>plan \<in> plans (base_url (self s)).
            prefix (actions_since s (snd (m s))) plan
            \<and> (isl (fst (m s)) \<or> actions_since s (snd (m s)) = plan))"
    by (auto simp: actions_since_def)
qed

lemma followsD:
  assumes "follows m plans" and "m s = (r, s')"
  shows "base_url (self s') = base_url (self s)
      \<and> (\<exists>d. trace s' = trace s @ d
            \<and> (\<exists>plan \<in> plans (base_url (self s)).
                  prefix (map action_of d) plan \<and> (isl r \<or> map action_of d = plan)))"
proof -
  from assms have b: "base_url (self s') = base_url (self s)"
    and t: "take (length (trace s)) (trace s') = trace s"
    and "\<exists>plan \<in> plans (base_url (self s)).
            prefix (actions_since s s') plan \<and> (isl r \<or> actions_since s s' = plan)"
    unfolding follows_def by (metis fst_conv snd_conv)+
  then obtain plan where plan: "plan \<in> plans (base_url (self s))"
    "prefix (actions_since s s') plan" "isl r \<or> actions_since s s' = plan"
    by blast
  have "trace s' = trace s @ drop (length (trace s)) (trace s')"
    using t by (metis append_take_drop_id)
  with b plan show ?thesis
    unfolding actions_since_def by blast
qed

lemma follows_bind:
  assumes m: "follows m first" and f: "\<And>x. follows (f x) second" and "inhabited second"
  shows "follows (bind m f) (seq first second)"
proof (rule followsI)
  fix s r s'
  assume run: "bind m f s = (r, s')"
  obtain r1 s1 where m1: "m s = (r1, s1)" by (cases "m s")
  from followsD [OF m m1] obtain d1 p where
    b1: "base_url (self s1) = base_url (self s)" and t1: "trace s1 = trace s @ d1" and
    p: "p \<in> first (base_url (self s))" "prefix (map action_of d1) p"
    "isl r1 \<or> map action_of d1 = p"
    by blast
  show "base_url (self s') = base_url (self s)
      \<and> (\<exists>d. trace s' = trace s @ d
            \<and> (\<exists>plan \<in> seq first second (base_url (self s)).
                  prefix (map action_of d) plan \<and> (isl r \<or> map action_of d = plan)))"
  proof (cases r1)
    case (Inl e)
    with run m1 have "r = Inl e" "s' = s1" by (simp_all add: bind_def)
    moreover obtain q where "q \<in> second (base_url (self s))"
      using \<open>inhabited second\<close> unfolding inhabited_def by blast
    then have "p @ q \<in> seq first second (base_url (self s))"
      using p(1) unfolding seq_def by blast
    moreover have "prefix (map action_of d1) (p @ q)"
      using p(2) by (simp add: prefix_prefix)
    ultimately show ?thesis using b1 t1 by auto
  next
    case (Inr x)
    with run m1 have f1: "f x s1 = (r, s')" by (simp add: bind_def)
    from Inr p have d1: "map action_of d1 = p" by simp
    from followsD [OF f f1] b1 obtain d2 q where
      b2: "base_url (self s') = base_url (self s)" and t2: "trace s' = trace s1 @ d2" and
      q: "q \<in> second (base_url (self s))" "prefix (map action_of d2) q"
      "isl r \<or> map action_of d2 = q"
      by auto
    have "p @ q \<in> seq first second (base_url (self s))"
      using p(1) q(1) unfolding seq_def by blast
    moreover have "prefix (map action_of (d1 @ d2)) (p @ q)"
      using d1 q(2) by simp
    moreover have "isl r \<or> map action_of (d1 @ d2) = p @ q"
      using d1 q(3) by auto
    ultimately show ?thesis using b2 t1 t2 by (metis append_assoc)
  qed
qed

lemma follows_mono:
  assumes "follows m plans" and "\<And>b. plans b \<subseteq> wider b"
  shows "follows m wider"
  using assms unfolding follows_def by (meson subsetD)

lemma inhabited_seq [simp]: "inhabited first \<Longrightarrow> inhabited second \<Longrightarrow> inhabited (seq first second)"
  unfolding inhabited_def seq_def by blast

lemma inhabited_one [simp]: "inhabited (\<lambda>b. {plan b})"
  by (simp add: inhabited_def)

lemma inhabited_any_reads [simp]: "inhabited (\<lambda>b. range (map Read))"
  by (simp add: inhabited_def)

lemma inhabited_ticket_plans [simp]: "inhabited (ticket_plans titles)"
proof (induction titles)
  case Nil
  show ?case by (simp add: inhabited_def)
next
  case (Cons title titles)
  have "inhabited (\<lambda>b. {[], [Submit (b @ ''/issues'') title, Printed]})"
    by (simp add: inhabited_def)
  with Cons have "inhabited (seq (\<lambda>b. {[], [Submit (b @ ''/issues'') title, Printed]})
      (ticket_plans titles))"
    by (rule inhabited_seq [rotated])
  then show ?case by (simp add: inhabited_def)
qed

lemma action_of_Get [simp]: "action_of \<circ> (\<lambda>u. Request (Get u h)) = Read"
  by (auto simp: fun_eq_iff)

lemma actions_reads: "map action_of (map (\<lambda>u. Request (Get u h)) us) = map Read us"
  by simp

lemma follows_reads:
  assumes "\<And>s. snd (m s) = reads s (urls (base_url (self s)))"
  shows "follows m (\<lambda>b. {map Read (urls b)})"
proof (rule followsI)
  fix s r s'
  assume "m s = (r, s')"
  with assms [of s] have "s' = reads s (urls (base_url (self s)))" by simp
  then show "base_url (self s') = base_url (self s)
      \<and> (\<exists>d. trace s' = trace s @ d
            \<and> (\<exists>plan \<in> {map Read (urls (base_url (self s)))}.
                  prefix (map action_of d) plan \<and> (isl r \<or> map action_of d = plan)))"
    by (simp add: actions_reads)
qed

lemma follows_only_reads:
  assumes "only_reads m"
  shows "follows m (\<lambda>b. range (map Read))"
proof (rule followsI)
  fix s r s'
  assume "m s = (r, s')"
  with only_readsD [OF assms, of s] obtain us where "s' = reads s us" by auto
  then show "base_url (self s') = base_url (self s)
      \<and> (\<exists>d. trace s' = trace s @ d
            \<and> (\<exists>plan \<in> range (map Read).
                  prefix (map action_of d) plan \<and> (isl r \<or> map action_of d = plan)))"
    by (auto simp: actions_reads)
qed

lemma follows_fetch_at_base:
  "follows (\<lambda>s. fetch_data env (base_url (self s) @ path) s) (\<lambda>b. {[Read (b @ path)]})"
  using follows_reads [of "\<lambda>s. fetch_data env (base_url (self s) @ path) s" "\<lambda>b. [b @ path]"]
  by (simp add: snd_fetch_data_reads)

lemma follows_check_documentation:
  "follows (check_documentation env) (\<lambda>b. {[Read (b @ ''/readme'')]})"
  using follows_reads [of "check_documentation env" "\<lambda>b. [b @ ''/readme'']"]
  by (simp add: snd_check_documentation reads_def)

lemma follows_check_security:
  "follows (check_security env) (\<lambda>b. {[Read (b @ ''/vulnerability-alerts'')]})"
  using follows_reads [of "check_security env" "\<lambda>b. [b @ ''/vulnerability-alerts'']"]
  by (simp add: snd_check_security reads_def)

lemma follows_check_license:
  "follows (check_license env) (\<lambda>b. {[Read (b @ ''/license'')]})"
  using follows_reads [of "check_license env" "\<lambda>b. [b @ ''/license'']"]
  by (simp add: snd_check_license reads_def)

lemma follows_check_contributing_guidelines:
  "follows (check_contributing_guidelines env) (\<lambda>b. {[Read (b @ ''/contents/CONTRIBUTING.md'')]})"
  using follows_reads [of "check_contributing_guidelines env"
      "\<lambda>b. [b @ ''/contents/CONTRIBUTING.md'']"]
  by (simp add: snd_check_contributing_guidelines reads_def)

lemma follows_check_issue_templates:
  "follows (check_issue_templates env)
     (\<lambda>b. {[Read (b @ ''/contents/.github/ISSUE_TEMPLATE/'')]})"
  using follows_reads [of "check_issue_templates env"
      "\<lambda>b. [b @ ''/contents/.github/ISSUE_TEMPLATE/'']"]
  by (simp add: snd_check_issue_templates reads_def)

lemma follows_check_pull_request_templates:
  "follows (check_pull_request_templates env)
     (\<lambda>b. {[Read (b @ ''/contents/.github/PULL_REQUEST_TEMPLATE.md'')]})"
  using follows_reads [of "check_pull_request_templates env"
      "\<lambda>b. [b @ ''/contents/.github/PULL_REQUEST_TEMPLATE.md'']"]
  by (simp add: snd_check_pull_request_templates reads_def)

lemma follows_check_changelog:
  "follows (check_changelog env) (\<lambda>b. {[Read (b @ ''/contents/CHANGELOG.md'')]})"
  using follows_reads [of "check_changelog env" "\<lambda>b. [b @ ''/contents/CHANGELOG.md'']"]
  by (simp add: snd_check_changelog reads_def)

lemma follows_analyze_issues:
  "follows (analyze_issues env)
     (seq (\<lambda>b. {[Read (b @ ''/issues?state=open'')]}) (\<lambda>b. range (map Read)))"
proof -
  have "analyze_issues env =
      bind (\<lambda>s. fetch_data env (base_url (self s) @ ''/issues?state=open'') s)
        (\<lambda>open_issues.
           bind (lift (iterate open_issues)) (\<lambda>issues.
           bind (issues_loop env issues []) (\<lambda>unresolved_issues.
           bind (lift (inactive_filter env unresolved_issues)) (\<lambda>inactive_issues.
             if unresolved_issues = [] then ret ''No unresolved open issues.''
             else if inactive_issues \<noteq> []
             then ret (''Found '' @ str_of_nat (length unresolved_issues)
                       @ '' unresolved open issues, including ''
                       @ str_of_nat (length inactive_issues) @ '' with long inactivity.'')
             else ret (''Found '' @ str_of_nat (length unresolved_issues)
                       @ '' unresolved open issues.'')))))"
    by (rule ext) (simp add: analyze_issues_def bind_def)
  then show ?thesis
    by (simp add: follows_bind follows_fetch_at_base follows_only_reads)
qed

lemma follows_analyze_pull_requests:
  "follows (analyze_pull_requests env)
     (seq (\<lambda>b. {[Read (b @ ''/pulls?state=open'')]}) (\<lambda>b. range (map Read)))"
proof -
  have "analyze_pull_requests env =
      bind (\<lambda>s. fetch_data env (base_url (self s) @ ''/pulls?state=open'') s)
        (\<lambda>open_pulls.
           bind (lift (iterate open_pulls)) (\<lambda>pulls.
           bind (pulls_loop env pulls []) (\<lambda>unmerged_pulls.
             if unmerged_pulls = [] then ret ''No unresolved open pull requests.''
             else ret (''Found '' @ str_of_nat (length unmerged_pulls)
                       @ '' unresolved open pull requests.''))))"
    by (rule ext) (simp add: analyze_pull_requests_def bind_def)
  then show ?thesis
    by (simp add: follows_bind follows_fetch_at_base follows_only_reads)
qed

lemma seq_one: "seq (\<lambda>b. {p b}) (\<lambda>b. {q b}) = (\<lambda>b. {p b @ q b})"
  by (auto simp: seq_def fun_eq_iff)

lemma follows_dependencies_loop:
  "follows (dependencies_loop env files acc)
     (\<lambda>b. {map (\<lambda>file_name. Read (b @ ''/contents/'' @ file_name)) files})"
proof (induction files arbitrary: acc)
  case Nil
  have "follows (ret acc :: string list prog) (\<lambda>b. {map Read ((\<lambda>b. []) b)})"
    by (rule follows_reads) (simp add: ret_def)
  then show ?case by simp
next
  case (Cons f fs)
  let ?probe = "\<lambda>s. except_HTTPError
           (bind (fetch_data env (base_url (self s) @ ''/contents/'' @ f))
              (\<lambda>response. ret (f @ '' found and needs further analysis.'')))
           (ret (f @ '' is missing.'')) s"
  have loop: "dependencies_loop env (f # fs) acc =
     bind ?probe (\<lambda>status. dependencies_loop env fs (acc @ [status]))"
    by (rule ext) (simp add: bind_def)
  have "follows ?probe (\<lambda>b. {map Read ((\<lambda>b. [b @ ''/contents/'' @ f]) b)})"
    by (rule follows_reads) (simp add: snd_probe reads_def)
  then have "follows (bind ?probe (\<lambda>status. dependencies_loop env fs (acc @ [status])))
      (seq (\<lambda>b. {[Read (b @ ''/contents/'' @ f)]})
         (\<lambda>b. {map (\<lambda>file_name. Read (b @ ''/contents/'' @ file_name)) fs}))"
    by (intro follows_bind Cons.IH inhabited_one) simp
  moreover have "(\<lambda>b. {map (\<lambda>file_name. Read (b @ ''/contents/'' @ file_name)) (f # fs)}) =
      seq (\<lambda>b. {[Read (b @ ''/contents/'' @ f)]})
        (\<lambda>b. {map (\<lambda>file_name. Read (b @ ''/contents/'' @ file_name)) fs})"
    by (simp add: seq_one)
  ultimately show ?case
    unfolding loop by simp
qed

lemma follows_check_dependencies:
  "follows (check_dependencies env)
     (\<lambda>b. {[Read (b @ ''/contents/package.json''), Read (b @ ''/contents/requirements.txt'')]})"
  using follows_dependencies_loop [of env manifest_files "[]"]
  by (simp add: check_dependencies_def manifest_files_def)

lemma follows_print: "follows (\<lambda>s. print (line s) s) (\<lambda>b. {[Printed]})"
  by (rule followsI) (auto simp: print_def)

lemma follows_create_issue:
  "follows (create_issue env title body) (\<lambda>b. {[Submit (b @ ''/issues'') title, Printed]})"
  by (rule followsI)
    (auto simp: create_issue_def Let_def print_def ticket_title_def split: option.splits if_splits)

lemma follows_if_then_create_issue:
  "follows (if_then c (create_issue env title body))
     (\<lambda>b. {[], [Submit (b @ ''/issues'') title, Printed]})"
proof (cases c)
  case True
  then show ?thesis
    using follows_mono [OF follows_create_issue,
        where wider = "\<lambda>b. {[], [Submit (b @ ''/issues'') title, Printed]}"]
    by (simp add: if_then_def)
next
  case False
  have "follows (ret () :: unit prog) (\<lambda>b. {map Read ((\<lambda>b. []) b)})"
    by (rule follows_reads) (simp add: ret_def)
  then have "follows (ret () :: unit prog) (\<lambda>b. {[], [Submit (b @ ''/issues'') title, Printed]})"
    by (rule follows_mono) simp
  with False show ?thesis by (simp add: if_then_def)
qed

lemma follows_ticket_step:
  assumes "follows rest (ticket_plans titles)"
  shows "follows (bind (if_then c (create_issue env title body)) (\<lambda>_. rest))
     (ticket_plans (title # titles))"
proof -
  have "follows (bind (if_then c (create_issue env title body)) (\<lambda>_. rest))
      (seq (\<lambda>b. {[], [Submit (b @ ''/issues'') title, Printed]}) (ticket_plans titles))"
    using assms by (intro follows_bind follows_if_then_create_issue inhabited_ticket_plans)
  moreover have "ticket_plans (title # titles) =
      seq (\<lambda>b. {[], [Submit (b @ ''/issues'') title, Printed]}) (ticket_plans titles)"
    by (rule ext) simp
  ultimately show ?thesis by simp
qed

lemma follows_ticket_last:
  "follows (if_then c (create_issue env title body)) (ticket_plans [title])"
  by (rule follows_mono [OF follows_if_then_create_issue]) (auto simp: seq_def)

lemma follows_create_issues:
  "follows (create_issues env d i deps sec l c it p ch) (ticket_plans remediation_titles)"
  unfolding create_issues_def remediation_titles_def
  by (intro follows_ticket_step follows_ticket_last)

lemma ticket_plans_submissions:
  "plan \<in> ticket_plans titles b \<Longrightarrow>
   \<exists>chosen. subseq chosen titles \<and> plan = submissions b chosen"
proof (induction titles arbitrary: plan)
  case Nil
  then show ?case by (auto simp: submissions_def)
next
  case (Cons title titles)
  from Cons.prems obtain p q where plan: "plan = p @ q"
    and p: "p = [] \<or> p = [Submit (b @ ''/issues'') title, Printed]"
    and q: "q \<in> ticket_plans titles b"
    by (auto simp: seq_def)
  from Cons.IH [OF q] obtain chosen where chosen: "subseq chosen titles" "q = submissions b chosen"
    by blast
  from p show ?case
  proof
    assume "p = []"
    with plan chosen have "subseq chosen (title # titles) \<and> plan = submissions b chosen"
      by (simp add: list_emb_Cons)
    then show ?thesis by blast
  next
    assume "p = [Submit (b @ ''/issues'') title, Printed]"
    with plan chosen have "subseq (title # chosen) (title # titles)
        \<and> plan = submissions b (title # chosen)"
      by (simp add: submissions_def)
    then show ?thesis by blast
  qed
qed

lemma follows_report_findings: "follows (report_findings env) audit_plans"
  unfolding report_findings_def audit_plans_def
  by (intro follows_bind follows_check_documentation follows_analyze_issues
      follows_analyze_pull_requests follows_check_dependencies follows_check_security
      follows_check_license follows_check_contributing_guidelines follows_check_issue_templates
      follows_check_pull_request_templates follows_check_changelog follows_print
      follows_create_issues inhabited_seq inhabited_one inhabited_any_reads
      inhabited_ticket_plans)

lemma followsE:
  assumes "follows m plans"
  obtains plan where "take (length (trace s)) (trace (snd (m s))) = trace s"
    and "plan \<in> plans (base_url (self s))"
    and "prefix (actions_since s (snd (m s))) plan"
    and "isl (fst (m s)) \<or> actions_since s (snd (m s)) = plan"
  using assms unfolding follows_def by blast

lemma seqE:
  assumes "plan \<in> seq first second b"
  obtains p q where "plan = p @ q" "p \<in> first b" "q \<in> second b"
  using assms unfolding seq_def by blast

lemma audit_plans_actions:
  assumes "plan \<in> audit_plans b"
  shows "\<exists>issue_threads pull_threads titles.
     subseq titles remediation_titles \<and> plan = audit_actions b issue_threads pull_threads titles"
proof -
  from assms obtain issue_threads pull_threads q where
    q: "q \<in> ticket_plans remediation_titles b" and
    plan: "plan = [Read (b @ ''/readme'')]
       @ ([Read (b @ ''/issues?state=open'')] @ map Read issue_threads)
       @ ([Read (b @ ''/pulls?state=open'')] @ map Read pull_threads)
       @ [Read (b @ ''/contents/package.json''), Read (b @ ''/contents/requirements.txt'')]
       @ [Read (b @ ''/vulnerability-alerts'')]
       @ [Read (b @ ''/license'')]
       @ [Read (b @ ''/contents/CONTRIBUTING.md'')]
       @ [Read (b @ ''/contents/.github/ISSUE_TEMPLATE/'')]
       @ [Read (b @ ''/contents/.github/PULL_REQUEST_TEMPLATE.md'')]
       @ [Read (b @ ''/contents/CHANGELOG.md'')]
       @ [Printed] @ q"
    unfolding audit_plans_def by (elim seqE) blast
  from ticket_plans_submissions [OF q] obtain titles where
    "subseq titles remediation_titles" "q = submissions b titles"
    by blast
  with plan have "subseq titles remediation_titles
      \<and> plan = audit_actions b issue_threads pull_threads titles"
    by (simp add: audit_actions_def check_reads_def)
  then show ?thesis by blast
qed

text \<open>
  C3. What a run of \<open>report_findings\<close> does, from any world, with any platform, is: the reads
  of the ten checks in the fixed order (each comment thread read inside the issue check
  or the pull request check), then the report, then tickets whose titles follow the fixed
  order of the nine tests, each submission followed by its console line. When the run
  returns, it has done all of this; when an exception ends it, it has done an initial part
  of it. So no ticket is submitted before the last check has read and the report is
  printed. The trace before the run is kept.
\<close>

theorem audit_order:
  "take (length (trace s)) (trace (snd (report_findings env s))) = trace s
   \<and> (\<exists>issue_threads pull_threads titles.
        subseq titles remediation_titles
        \<and> prefix (actions_since s (snd (report_findings env s)))
             (audit_actions (base_url (self s)) issue_threads pull_threads titles)
        \<and> (isl (fst (report_findings env s))
           \<or> actions_since s (snd (report_findings env s)) =
             audit_actions (base_url (self s)) issue_threads pull_threads titles))"
proof -
  from follows_report_findings [of env] obtain plan where
    kept: "take (length (trace s)) (trace (snd (report_findings env s))) = trace s" and
    plan: "plan \<in> audit_plans (base_url (self s))"
    "prefix (actions_since s (snd (report_findings env s))) plan"
    "isl (fst (report_findings env s)) \<or> actions_since s (snd (report_findings env s)) = plan"
    by (rule followsE)
  from audit_plans_actions [OF plan(1)] obtain issue_threads pull_threads titles where
    titles: "subseq titles remediation_titles" and
    eq: "plan = audit_actions (base_url (self s)) issue_threads pull_threads titles"
    by blast
  show ?thesis
  proof (intro conjI exI)
    show "take (length (trace s)) (trace (snd (report_findings env s))) = trace s"
      by (rule kept)
    show "subseq titles remediation_titles"
      by (rule titles)
    show "prefix (actions_since s (snd (report_findings env s)))
        (audit_actions (base_url (self s)) issue_threads pull_threads titles)"
      using plan(2) unfolding eq .
    show "isl (fst (report_findings env s))
        \<or> actions_since s (snd (report_findings env s)) =
          audit_actions (base_url (self s)) issue_threads pull_threads titles"
      using plan(3) unfolding eq .
  qed
qed

section \<open>The tickets of a run\<close>

lemma submitsI:
  assumes "\<And>s x s'. m s = (Inr x, s') \<Longrightarrow>
      \<exists>evs. trace s' = trace s @ evs \<and> concat (map ticket_of evs) = due"
  shows "submits m due"
  using assms unfolding submits_def by blast

lemma submitsD:
  assumes "submits m due" and "m s = (Inr x, s')"
  shows "\<exists>evs. trace s' = trace s @ evs \<and> concat (map ticket_of evs) = due"
  using assms unfolding submits_def by blast

lemma bind_InrE:
  assumes "bind m f s = (Inr y, s')"
  obtains x s1 where "m s = (Inr x, s1)" and "f x s1 = (Inr y, s')"
  using assms by (auto simp: bind_def split: prod.splits sum.splits)

lemma submits_bind:
  assumes "submits m first" and "\<And>x. submits (f x) second"
  shows "submits (bind m f) (first @ second)"
proof (rule submitsI)
  fix s y s'
  assume "bind m f s = (Inr y, s')"
  then obtain x s1 where m: "m s = (Inr x, s1)" and f: "f x s1 = (Inr y, s')"
    by (rule bind_InrE)
  from submitsD [OF assms(1) m] obtain evs1 where
    "trace s1 = trace s @ evs1" "concat (map ticket_of evs1) = first"
    by blast
  moreover from submitsD [OF assms(2) f] obtain evs2 where
    "trace s' = trace s1 @ evs2" "concat (map ticket_of evs2) = second"
    by blast
  ultimately have "trace s' = trace s @ (evs1 @ evs2)
      \<and> concat (map ticket_of (evs1 @ evs2)) = first @ second"
    by simp
  then show "\<exists>evs. trace s' = trace s @ evs \<and> concat (map ticket_of evs) = first @ second"
    by blast
qed

lemma tickets_reads [simp]: "concat (map ticket_of (map (\<lambda>u. Request (Get u h)) us)) = []"
  by (induction us) simp_all

lemma submits_only_reads:
  assumes "only_reads m"
  shows "submits m []"
proof (rule submitsI)
  fix s x s'
  assume "m s = (Inr x, s')"
  with only_readsD [OF assms, of s] obtain us where "s' = reads s us" by auto
  then have "trace s' = trace s @ map (\<lambda>u. Request (Get u (headers (self s)))) us
      \<and> concat (map ticket_of (map (\<lambda>u. Request (Get u (headers (self s)))) us)) = []"
    by simp
  then show "\<exists>evs. trace s' = trace s @ evs \<and> concat (map ticket_of evs) = []"
    by blast
qed

lemma submits_print: "submits (\<lambda>s. print (line s) s) []"
  by (rule submitsI) (auto simp: print_def)

lemma submits_create_issue: "submits (create_issue env title body) [(title, body)]"
  by (rule submitsI)
    (auto simp: create_issue_def Let_def print_def split: option.splits if_splits)

lemma submits_if_then:
  "submits (if_then c (create_issue env title body)) (if c then [(title, body)] else [])"
proof (cases c)
  case True
  then show ?thesis by (simp add: if_then_def submits_create_issue)
next
  case False
  have "submits (ret () :: unit prog) []"
    by (rule submitsI) (simp add: ret_def)
  with False show ?thesis by (simp add: if_then_def)
qed

lemma submits_create_issues:
  "submits (create_issues env d i deps sec l c it p ch) (due_tickets d i deps sec l c it p ch)"
  unfolding create_issues_def due_tickets_def
  by (intro submits_bind submits_if_then)

lemma report_findings_steps:
  assumes "report_findings env s = (Inr (), s')"
  obtains d i p deps sec l c it pt ch s1 s2 s3 s4 s5 s6 s7 s8 s9 s10 s11 u where
    "check_documentation env s = (Inr d, s1)"
    "analyze_issues env s1 = (Inr i, s2)"
    "analyze_pull_requests env s2 = (Inr p, s3)"
    "check_dependencies env s3 = (Inr deps, s4)"
    "check_security env s4 = (Inr sec, s5)"
    "check_license env s5 = (Inr l, s6)"
    "check_contributing_guidelines env s6 = (Inr c, s7)"
    "check_issue_templates env s7 = (Inr it, s8)"
    "check_pull_request_templates env s8 = (Inr pt, s9)"
    "check_changelog env s9 = (Inr ch, s10)"
    "print (report_text (repo_name (self s10)) d i p deps sec l c it pt ch) s10 = (Inr u, s11)"
    "create_issues env d i deps sec l c it pt ch s11 = (Inr (), s')"
  using assms unfolding report_findings_def
  by (elim bind_InrE) (rule that; assumption)

lemma grown:
  assumes "submits m due" and "m s = (Inr x, s')"
  obtains evs where "trace s' = trace s @ evs" and "concat (map ticket_of evs) = due"
  using submitsD [OF assms] by blast

lemma tickets_since_append:
  "trace s' = trace s @ evs \<Longrightarrow> tickets_since s s' = concat (map ticket_of evs)"
  by (simp add: tickets_since_def)

lemma report_findings_returned:
  assumes "fst (report_findings env s) = Inr ()"
  obtains d i p deps sec l c it pt ch where
    "fst (check_documentation env s) = Inr d"
    "fst (check_security env (before_security env s)) = Inr sec"
    "tickets_since s (snd (report_findings env s)) = due_tickets d i deps sec l c it pt ch"
proof -
  obtain s' where run: "report_findings env s = (Inr (), s')"
    using assms by (cases "report_findings env s") simp
  from run obtain d i p deps sec l c it pt ch s1 s2 s3 s4 s5 s6 s7 s8 s9 s10 s11 u where
    steps: "check_documentation env s = (Inr d, s1)"
    "analyze_issues env s1 = (Inr i, s2)"
    "analyze_pull_requests env s2 = (Inr p, s3)"
    "check_dependencies env s3 = (Inr deps, s4)"
    "check_security env s4 = (Inr sec, s5)"
    "check_license env s5 = (Inr l, s6)"
    "check_contributing_guidelines env s6 = (Inr c, s7)"
    "check_issue_templates env s7 = (Inr it, s8)"
    "check_pull_request_templates env s8 = (Inr pt, s9)"
    "check_changelog env s9 = (Inr ch, s10)"
    "print (report_text (repo_name (self s10)) d i p deps sec l c it pt ch) s10 = (Inr u, s11)"
    "create_issues env d i deps sec l c it pt ch s11 = (Inr (), s')"
    by (rule report_findings_steps)
  have s4: "before_security env s = s4"
    using steps(1-4) by (simp add: before_security_def)
  obtain e1 where e1: "trace s1 = trace s @ e1" "concat (map ticket_of e1) = []"
    using submits_only_reads [OF only_reads_check_documentation] steps(1) by (rule grown)
  obtain e2 where e2: "trace s2 = trace s1 @ e2" "concat (map ticket_of e2) = []"
    using submits_only_reads [OF only_reads_analyze_issues] steps(2) by (rule grown)
  obtain e3 where e3: "trace s3 = trace s2 @ e3" "concat (map ticket_of e3) = []"
    using submits_only_reads [OF only_reads_analyze_pull_requests] steps(3) by (rule grown)
  obtain e4 where e4: "trace s4 = trace s3 @ e4" "concat (map ticket_of e4) = []"
    using submits_only_reads [OF only_reads_check_dependencies] steps(4) by (rule grown)
  obtain e5 where e5: "trace s5 = trace s4 @ e5" "concat (map ticket_of e5) = []"
    using submits_only_reads [OF only_reads_check_security] steps(5) by (rule grown)
  obtain e6 where e6: "trace s6 = trace s5 @ e6" "concat (map ticket_of e6) = []"
    using submits_only_reads [OF only_reads_check_license] steps(6) by (rule grown)
  obtain e7 where e7: "trace s7 = trace s6 @ e7" "concat (map ticket_of e7) = []"
    using submits_only_reads [OF only_reads_check_contributing_guidelines] steps(7)
    by (rule grown)
  obtain e8 where e8: "trace s8 = trace s7 @ e8" "concat (map ticket_of e8) = []"
    using submits_only_reads [OF only_reads_check_issue_templates] steps(8) by (rule grown)
  obtain e9 where e9: "trace s9 = trace s8 @ e9" "concat (map ticket_of e9) = []"
    using submits_only_reads [OF only_reads_check_pull_request_templates] steps(9)
    by (rule grown)
  obtain e10 where e10: "trace s10 = trace s9 @ e10" "concat (map ticket_of e10) = []"
    using submits_only_reads [OF only_reads_check_changelog] steps(10) by (rule grown)
  have e11: "trace s11 = trace s10 @ [Print (report_text (repo_name (self s10)) d i p deps sec
      l c it pt ch)]"
    using steps(11) by (auto simp: print_def)
  obtain e12 where e12: "trace s' = trace s11 @ e12"
    "concat (map ticket_of e12) = due_tickets d i deps sec l c it pt ch"
    using submits_create_issues steps(12) by (rule grown)
  have "trace s' = trace s @ (e1 @ e2 @ e3 @ e4 @ e5 @ e6 @ e7 @ e8 @ e9 @ e10
      @ [Print (report_text (repo_name (self s10)) d i p deps sec l c it pt ch)] @ e12)"
    using e1(1) e2(1) e3(1) e4(1) e5(1) e6(1) e7(1) e8(1) e9(1) e10(1) e11 e12(1) by simp
  then have "tickets_since s s' = due_tickets d i deps sec l c it pt ch"
    using e1(2) e2(2) e3(2) e4(2) e5(2) e6(2) e7(2) e8(2) e9(2) e10(2) e12(2)
    by (simp add: tickets_since_append)
  with run steps(1,5) s4 show thesis
    by (intro that [of d sec i deps l c it pt ch]) simp_all
qed

lemma filter_title_if:
  "filter (\<lambda>ticket. fst ticket = title) (if c then [(t, b)] else []) =
     (if c \<and> t = title then [(t, b)] else [])"
  by simp

lemma check_documentation_missing:
  assumes "remote env (trace s) (Get (base_url (self s) @ ''/readme'') (headers (self s))) = Some r"
    and "400 \<le> status_code r" and "status_code r < 600"
  shows "check_documentation env s =
     (Inr ''README.md file is missing.'', reads s [base_url (self s) @ ''/readme''])"
  using fetch_data_error [OF assms]
  by (simp add: check_documentation_def except_HTTPError_def bind_def ret_def)

lemma check_security_count:
  assumes "remote env (trace s)
      (Get (base_url (self s) @ ''/vulnerability-alerts'') (headers (self s))) = Some r"
    and "status_code r = 200" and "json_body r = Some alerts"
    and "subscript alerts ''total_count'' = Inr total_count"
  shows "check_security env s =
     (Inr (if eq_int total_count 0 then ''No reported vulnerabilities.''
           else ''Found '' @ py_str env total_count @ '' security vulnerabilities.''),
      reads s [base_url (self s) @ ''/vulnerability-alerts''])"
  using fetch_data_200 [OF assms(1-3)] assms(4)
  by (simp add: check_security_def except_HTTPError_def bind_def lift_def ret_def)

lemma check_security_failed:
  assumes "remote env (trace s)
      (Get (base_url (self s) @ ''/vulnerability-alerts'') (headers (self s))) = Some r"
    and "400 \<le> status_code r" and "status_code r < 600"
  shows "check_security env s =
     (Inr ''Could not retrieve security vulnerabilities.'',
      reads s [base_url (self s) @ ''/vulnerability-alerts''])"
  using fetch_data_error [OF assms]
  by (simp add: check_security_def except_HTTPError_def bind_def ret_def)

lemma self_before_security: "self (before_security env s) = self s"
  by (simp add: before_security_def self_only_reads only_reads_checks)

lemma missing_says_missing: "str_contains (lower ''README.md file is missing.'') ''missing''"
  by code_simp

lemma found_3_says_vulnerabilities:
  "str_contains (lower ''Found 3 security vulnerabilities.'') ''security vulnerabilities''"
  by code_simp

lemma could_not_says_vulnerabilities:
  "str_contains (lower ''Could not retrieve security vulnerabilities.'')
     ''security vulnerabilities''"
  by code_simp

lemma str_of_int_3: "str_of_int 3 = ''3''"
  by code_simp

text \<open>
  C8, amended. In a run that returns (no exception ends it) and whose README read is
  answered with a status from 400 to 599, the documentation status is
  \<open>README.md file is missing.\<close>, and exactly one of the tickets submitted in the run has the
  title \<open>Missing README.md or essential sections\<close>; its body is that status.
\<close>

theorem missing_readme_ticket:
  assumes "fst (report_findings env s) = Inr ()"
    and "remote env (trace s) (Get (base_url (self s) @ ''/readme'') (headers (self s))) = Some r"
    and "400 \<le> status_code r" and "status_code r < 600"
  shows "fst (check_documentation env s) = Inr ''README.md file is missing.''
     \<and> filter (\<lambda>ticket. fst ticket = ''Missing README.md or essential sections'')
         (tickets_since s (snd (report_findings env s))) =
       [(''Missing README.md or essential sections'', ''README.md file is missing.'')]"
proof -
  have status: "fst (check_documentation env s) = Inr ''README.md file is missing.''"
    using check_documentation_missing [OF assms(2-4)] by simp
  from assms(1) obtain d i p deps sec l c it pt ch where
    "fst (check_documentation env s) = Inr d"
    "tickets_since s (snd (report_findings env s)) = due_tickets d i deps sec l c it pt ch"
    by (rule report_findings_returned)
  with status have "tickets_since s (snd (report_findings env s)) =
      due_tickets ''README.md file is missing.'' i deps sec l c it pt ch"
    by simp
  then have "filter (\<lambda>ticket. fst ticket = ''Missing README.md or essential sections'')
         (tickets_since s (snd (report_findings env s))) =
       [(''Missing README.md or essential sections'', ''README.md file is missing.'')]"
    by (simp add: due_tickets_def filter_title_if missing_says_missing)
  with status show ?thesis by simp
qed

text \<open>
  C9, amended. In a run that returns and whose read of the vulnerability alerts is
  answered with status 200 and a body whose \<open>total_count\<close> is 3, the security status is
  \<open>Found 3 security vulnerabilities.\<close>, and exactly one of the tickets submitted in the run
  has the title \<open>Security vulnerabilities detected\<close>; its body is that status.
\<close>

theorem three_vulnerabilities_ticket:
  assumes "fst (report_findings env s) = Inr ()"
    and "remote env (trace (before_security env s))
      (Get (base_url (self s) @ ''/vulnerability-alerts'') (headers (self s))) = Some r"
    and "status_code r = 200" and "json_body r = Some alerts"
    and "subscript alerts ''total_count'' = Inr (JInt 3)"
  shows "fst (check_security env (before_security env s)) =
       Inr ''Found 3 security vulnerabilities.''
     \<and> filter (\<lambda>ticket. fst ticket = ''Security vulnerabilities detected'')
         (tickets_since s (snd (report_findings env s))) =
       [(''Security vulnerabilities detected'', ''Found 3 security vulnerabilities.'')]"
proof -
  have "remote env (trace (before_security env s))
      (Get (base_url (self (before_security env s)) @ ''/vulnerability-alerts'')
        (headers (self (before_security env s)))) = Some r"
    using assms(2) by (simp add: self_before_security)
  from check_security_count [OF this assms(3-5)]
  have status: "fst (check_security env (before_security env s)) =
      Inr ''Found 3 security vulnerabilities.''"
    by (simp add: str_of_int_3)
  from assms(1) obtain d i p deps sec l c it pt ch where
    "fst (check_security env (before_security env s)) = Inr sec"
    "tickets_since s (snd (report_findings env s)) = due_tickets d i deps sec l c it pt ch"
    by (rule report_findings_returned)
  with status have "tickets_since s (snd (report_findings env s)) =
      due_tickets d i deps ''Found 3 security vulnerabilities.'' l c it pt ch"
    by simp
  then have "filter (\<lambda>ticket. fst ticket = ''Security vulnerabilities detected'')
         (tickets_since s (snd (report_findings env s))) =
       [(''Security vulnerabilities detected'', ''Found 3 security vulnerabilities.'')]"
    by (simp add: due_tickets_def filter_title_if found_3_says_vulnerabilities)
  with status show ?thesis by simp
qed

text \<open>
  C10, amended. In a run that returns and whose read of the vulnerability alerts is
  answered with a status from 400 to 599, the security status is
  \<open>Could not retrieve security vulnerabilities.\<close>; the test for the security ticket,
  \<open>'security vulnerabilities' in security_status.lower()\<close>, holds of it, and exactly one of
  the tickets submitted in the run has the title \<open>Security vulnerabilities detected\<close>; its
  body is that status.
\<close>

theorem unretrieved_vulnerabilities_ticket:
  assumes "fst (report_findings env s) = Inr ()"
    and "remote env (trace (before_security env s))
      (Get (base_url (self s) @ ''/vulnerability-alerts'') (headers (self s))) = Some r"
    and "400 \<le> status_code r" and "status_code r < 600"
  shows "fst (check_security env (before_security env s)) =
       Inr ''Could not retrieve security vulnerabilities.''
     \<and> str_contains (lower ''Could not retrieve security vulnerabilities.'')
         ''security vulnerabilities''
     \<and> filter (\<lambda>ticket. fst ticket = ''Security vulnerabilities detected'')
         (tickets_since s (snd (report_findings env s))) =
       [(''Security vulnerabilities detected'',
         ''Could not retrieve security vulnerabilities.'')]"
proof -
  have "remote env (trace (before_security env s))
      (Get (base_url (self (before_security env s)) @ ''/vulnerability-alerts'')
        (headers (self (before_security env s)))) = Some r"
    using assms(2) by (simp add: self_before_security)
  from check_security_failed [OF this assms(3,4)]
  have status: "fst (check_security env (before_security env s)) =
      Inr ''Could not retrieve security vulnerabilities.''"
    by simp
  from assms(1) obtain d i p deps sec l c it pt ch where
    "fst (check_security env (before_security env s)) = Inr sec"
    "tickets_since s (snd (report_findings env s)) = due_tickets d i deps sec l c it pt ch"
    by (rule report_findings_returned)
  with status have "tickets_since s (snd (report_findings env s)) =
      due_tickets d i deps ''Could not retrieve security vulnerabilities.'' l c it pt ch"
    by simp
  then have "filter (\<lambda>ticket. fst ticket = ''Security vulnerabilities detected'')
         (tickets_since s (snd (report_findings env s))) =
       [(''Security vulnerabilities detected'',
         ''Could not retrieve security vulnerabilities.'')]"
    by (simp add: due_tickets_def filter_title_if could_not_says_vulnerabilities)
  with status could_not_says_vulnerabilities show ?thesis by simp
qed

section \<open>Runs of the scenarios\<close>

lemma fetch_data_answering:
  "fetch_data (answering f) url s = (outcome (f (Get url (headers (self s)))), reads s [url])"
  by (simp add: fetch_data_def outcome_def reads_def Let_def split: option.splits sum.splits)

lemma base_url_world0: "base_url (self world0) = ''https://api.github.com/repos/octo/demo''"
  by code_simp

lemma outcome_absent: "outcome (Some not_found) = Inl (HTTPError 404)"
  by code_simp

lemma outcome_ok: "outcome (Some (ok v)) = Inr v"
  by (simp add: outcome_def ok_def)

lemma outcome_None: "outcome None = Inl RequestException"
  by (simp add: outcome_def)

lemma repository_Get:
  "repository alerts licence (Get url h) =
     (if url = ''https://api.github.com/repos/octo/demo/vulnerability-alerts'' then Some alerts
      else if url = ''https://api.github.com/repos/octo/demo/license'' then licence
      else case map_of demo_unsolved url of Some r \<Rightarrow> Some r | None \<Rightarrow> Some not_found)"
  by (simp add: repository_def serving_def)

lemmas run_simps =
  fetch_data_answering base_url_world0 outcome_absent outcome_ok outcome_None repository_Get
  serving_Get bind_def except_HTTPError_def ret_def lift_def demo_unsolved_def

lemma repository_documentation:
  "self s = self world0 \<Longrightarrow>
   check_documentation (answering (repository alerts licence)) s =
     (Inr ''README.md file is missing.'',
      reads s [''https://api.github.com/repos/octo/demo/readme''])"
  by (simp add: check_documentation_def run_simps)

lemma any_resolved_7: "any_comment ''resolved'' (JList (open_threads issue7)) = Inr False"
  by code_simp

lemma any_resolved_9: "any_comment ''resolved'' (JList (open_threads issue9)) = Inr False"
  by code_simp

lemma comments_url_7:
  "subscript issue7 ''comments_url'' =
     Inr (JStr ''https://api.github.com/repos/octo/demo/issues/7/comments'')"
  by code_simp

lemma comments_url_9:
  "subscript issue9 ''comments_url'' =
     Inr (JStr ''https://api.github.com/repos/octo/demo/issues/9/comments'')"
  by code_simp

lemma inactive_demo: "inactive_filter env [issue7, issue9] = Inr [issue7]"
  by (simp add: issue7_def issue9_def)

lemma str_of_nat_1: "str_of_nat (Suc 0) = ''1''"
  by (simp add: str_of_nat.simps digit_char_def char_of_eq_iff)

lemma str_of_nat_2: "str_of_nat (Suc (Suc 0)) = ''2''"
  by (simp add: str_of_nat.simps digit_char_def char_of_eq_iff)

lemma repository_issues:
  "self s = self world0 \<Longrightarrow>
   analyze_issues (answering (repository alerts licence)) s =
     (Inr ''Found 2 unresolved open issues, including 1 with long inactivity.'',
      reads s [''https://api.github.com/repos/octo/demo/issues?state=open'',
               ''https://api.github.com/repos/octo/demo/issues/7/comments'',
               ''https://api.github.com/repos/octo/demo/issues/9/comments''])"
  by (simp add: analyze_issues_def run_simps any_resolved_7 any_resolved_9 comments_url_7
      comments_url_9 inactive_demo str_of_nat_1 str_of_nat_2 del: inactive_filter.simps)

lemma repository_pulls:
  "self s = self world0 \<Longrightarrow>
   analyze_pull_requests (answering (repository alerts licence)) s =
     (Inr ''No unresolved open pull requests.'',
      reads s [''https://api.github.com/repos/octo/demo/pulls?state=open''])"
  by (simp add: analyze_pull_requests_def run_simps)

lemma repository_dependencies:
  "self s = self world0 \<Longrightarrow>
   check_dependencies (answering (repository alerts licence)) s =
     (Inr [''package.json is missing.'', ''requirements.txt is missing.''],
      reads s [''https://api.github.com/repos/octo/demo/contents/package.json'',
               ''https://api.github.com/repos/octo/demo/contents/requirements.txt''])"
  by (simp add: check_dependencies_def manifest_files_def run_simps)

lemma repository_security_three:
  "self s = self world0 \<Longrightarrow>
   check_security (answering (repository three_alerts licence)) s =
     (Inr ''Found 3 security vulnerabilities.'',
      reads s [''https://api.github.com/repos/octo/demo/vulnerability-alerts''])"
  by (simp add: check_security_def run_simps three_alerts_def str_of_int_3)

lemma repository_security_absent:
  "self s = self world0 \<Longrightarrow>
   check_security (answering (repository not_found licence)) s =
     (Inr ''Could not retrieve security vulnerabilities.'',
      reads s [''https://api.github.com/repos/octo/demo/vulnerability-alerts''])"
  by (simp add: check_security_def run_simps)

lemma repository_license_absent:
  "self s = self world0 \<Longrightarrow>
   check_license (answering (repository alerts (Some not_found))) s =
     (Inr ''License file is missing.'',
      reads s [''https://api.github.com/repos/octo/demo/license''])"
  by (simp add: check_license_def run_simps)

lemma repository_license_unreachable:
  "self s = self world0 \<Longrightarrow>
   check_license (answering (repository alerts None)) s =
     (Inl RequestException, reads s [''https://api.github.com/repos/octo/demo/license''])"
  by (simp add: check_license_def run_simps)

lemma repository_contributing:
  "self s = self world0 \<Longrightarrow>
   check_contributing_guidelines (answering (repository alerts licence)) s =
     (Inr ''Contributing guidelines are missing.'',
      reads s [''https://api.github.com/repos/octo/demo/contents/CONTRIBUTING.md''])"
  by (simp add: check_contributing_guidelines_def run_simps)

lemma repository_issue_templates:
  "self s = self world0 \<Longrightarrow>
   check_issue_templates (answering (repository alerts licence)) s =
     (Inr ''Issue templates are missing.'',
      reads s [''https://api.github.com/repos/octo/demo/contents/.github/ISSUE_TEMPLATE/''])"
  by (simp add: check_issue_templates_def run_simps)

lemma repository_pull_request_templates:
  "self s = self world0 \<Longrightarrow>
   check_pull_request_templates (answering (repository alerts licence)) s =
     (Inr ''Pull request templates are missing.'',
      reads s
        [''https://api.github.com/repos/octo/demo/contents/.github/PULL_REQUEST_TEMPLATE.md''])"
  by (simp add: check_pull_request_templates_def run_simps)

lemma repository_changelog:
  "self s = self world0 \<Longrightarrow>
   check_changelog (answering (repository alerts licence)) s =
     (Inr ''Changelog is missing.'',
      reads s [''https://api.github.com/repos/octo/demo/contents/CHANGELOG.md''])"
  by (simp add: check_changelog_def run_simps)

lemmas repository_checks =
  repository_documentation repository_issues repository_pulls repository_dependencies
  repository_contributing repository_issue_templates repository_pull_request_templates
  repository_changelog

lemma returns_ret [simp]: "returns (ret ())"
  by (simp add: returns_def ret_def)

lemma returns_bind [simp]:
  assumes "returns m" and "\<And>x. returns (f x)"
  shows "returns (bind m f)"
  using assms unfolding returns_def bind_def
  by (auto split: prod.splits sum.splits) (metis Inl_Inr_False fst_conv)

lemma returns_if_then [simp]: "returns m \<Longrightarrow> returns (if_then c m)"
  by (simp add: if_then_def)

lemma returns_create_issue [simp]:
  "returns (create_issue (answering (repository alerts licence)) title body)"
  by (simp add: returns_def create_issue_def Let_def print_def repository_def serving_def)

lemma returns_create_issues [simp]:
  "returns (create_issues (answering (repository alerts licence)) d i deps sec l c it p ch)"
  by (simp add: create_issues_def)

lemma fst_create_issues:
  "fst (create_issues (answering (repository alerts licence)) d i deps sec l c it p ch s) = Inr ()"
  using returns_create_issues unfolding returns_def by blast

lemma repository_run_returns:
  assumes "\<And>s. self s = self world0 \<Longrightarrow>
      check_security (answering (repository alerts (Some not_found))) s =
        (Inr sec, reads s [''https://api.github.com/repos/octo/demo/vulnerability-alerts''])"
  shows "fst (report_findings (answering (repository alerts (Some not_found))) world0) = Inr ()"
  by (simp add: report_findings_def bind_def repository_checks repository_license_absent assms
      print_def fst_create_issues)

lemma repository_before_security:
  "before_security (answering (repository alerts licence)) world0 =
     reads world0
       [''https://api.github.com/repos/octo/demo/readme'',
        ''https://api.github.com/repos/octo/demo/issues?state=open'',
        ''https://api.github.com/repos/octo/demo/issues/7/comments'',
        ''https://api.github.com/repos/octo/demo/issues/9/comments'',
        ''https://api.github.com/repos/octo/demo/pulls?state=open'',
        ''https://api.github.com/repos/octo/demo/contents/package.json'',
        ''https://api.github.com/repos/octo/demo/contents/requirements.txt'']"
  by (simp add: before_security_def repository_checks)

lemma repository_run_unreachable:
  assumes "\<And>s. self s = self world0 \<Longrightarrow>
      check_security (answering (repository alerts None)) s =
        (Inr sec, reads s [''https://api.github.com/repos/octo/demo/vulnerability-alerts''])"
  shows "report_findings (answering (repository alerts None)) world0 =
     (Inl RequestException,
      reads world0
       [''https://api.github.com/repos/octo/demo/readme'',
        ''https://api.github.com/repos/octo/demo/issues?state=open'',
        ''https://api.github.com/repos/octo/demo/issues/7/comments'',
        ''https://api.github.com/repos/octo/demo/issues/9/comments'',
        ''https://api.github.com/repos/octo/demo/pulls?state=open'',
        ''https://api.github.com/repos/octo/demo/contents/package.json'',
        ''https://api.github.com/repos/octo/demo/contents/requirements.txt'',
        ''https://api.github.com/repos/octo/demo/vulnerability-alerts'',
        ''https://api.github.com/repos/octo/demo/license''])"
  by (simp add: report_findings_def bind_def repository_checks repository_license_unreachable
      assms)

lemma tickets_since_reads [simp]: "tickets_since s (reads s us) = []"
  by (simp add: tickets_since_def)

lemma empty_run:
  "report_findings (answering (serving [])) world0 =
     (Inl (HTTPError 404),
      reads world0 [''https://api.github.com/repos/octo/demo/readme'',
                    ''https://api.github.com/repos/octo/demo/issues?state=open''])"
  by (simp add: report_findings_def check_documentation_def analyze_issues_def
      fetch_data_answering base_url_world0 outcome_absent serving_Get bind_def
      except_HTTPError_def ret_def)

lemma repository_readme_absent:
  "remote (answering (repository alerts licence)) (trace world0)
     (Get (base_url (self world0) @ ''/readme'') (headers (self world0))) = Some not_found"
  by (simp add: base_url_world0 repository_Get demo_unsolved_def)

lemma repository_alerts:
  "remote (answering (repository alerts licence)) history
     (Get (base_url (self world0) @ ''/vulnerability-alerts'') (headers (self world0))) =
   Some alerts"
  by (simp add: base_url_world0 repository_Get)

lemma not_found_status: "400 \<le> status_code not_found" "status_code not_found < 600"
  by (simp_all add: not_found_def)

text \<open>
  C8, as stated, fails in a run that an exception ends before the tickets. Nothing of the
  repository exists: the README read is answered 404 and the documentation status is the
  missing one, then the listing of the open issues is answered 404 too, \<open>analyze_issues\<close>
  does not catch the \<open>HTTPError\<close>, and the run ends with no ticket submitted.
\<close>

theorem missing_readme_no_ticket:
  "fst (check_documentation (answering (serving [])) world0) = Inr ''README.md file is missing.''
   \<and> fst (report_findings (answering (serving [])) world0) = Inl (HTTPError 404)
   \<and> tickets_since world0 (snd (report_findings (answering (serving [])) world0)) = []"
  by (simp add: empty_run check_documentation_def fetch_data_answering base_url_world0
      outcome_absent serving_Get bind_def except_HTTPError_def ret_def)

theorem missing_readme_ticket_witness:
  "fst (report_findings (answering (repository not_found (Some not_found))) world0) = Inr ()
   \<and> filter (\<lambda>ticket. fst ticket = ''Missing README.md or essential sections'')
       (tickets_since world0
         (snd (report_findings (answering (repository not_found (Some not_found))) world0))) =
     [(''Missing README.md or essential sections'', ''README.md file is missing.'')]"
  using missing_readme_ticket [OF repository_run_returns [OF repository_security_absent]
      repository_readme_absent not_found_status]
    repository_run_returns [OF repository_security_absent]
  by simp

text \<open>
  C9, as stated, fails in a run that an exception ends before the tickets. The alerts are
  read with \<open>total_count\<close> 3 and the security status is the one the claim gives; then the
  connection fails at the read of the licence, \<open>check_license\<close> catches only \<open>HTTPError\<close>,
  and the run ends with no ticket submitted.
\<close>

theorem three_vulnerabilities_no_ticket:
  "fst (check_security (answering (repository three_alerts None))
          (before_security (answering (repository three_alerts None)) world0)) =
     Inr ''Found 3 security vulnerabilities.''
   \<and> fst (report_findings (answering (repository three_alerts None)) world0) =
     Inl RequestException
   \<and> tickets_since world0
       (snd (report_findings (answering (repository three_alerts None)) world0)) = []"
  by (simp add: repository_run_unreachable [OF repository_security_three]
      repository_before_security repository_security_three)

theorem three_vulnerabilities_ticket_witness:
  "fst (report_findings (answering (repository three_alerts (Some not_found))) world0) = Inr ()
   \<and> filter (\<lambda>ticket. fst ticket = ''Security vulnerabilities detected'')
       (tickets_since world0
         (snd (report_findings (answering (repository three_alerts (Some not_found))) world0))) =
     [(''Security vulnerabilities detected'', ''Found 3 security vulnerabilities.'')]"
proof -
  have "status_code three_alerts = 200"
    "json_body three_alerts = Some (JObj [(''total_count'', JInt 3)])"
    "subscript (JObj [(''total_count'', JInt 3)]) ''total_count'' = Inr (JInt 3)"
    by (simp_all add: three_alerts_def ok_def)
  from three_vulnerabilities_ticket [OF repository_run_returns [OF repository_security_three]
      repository_alerts this]
  show ?thesis
    using repository_run_returns [OF repository_security_three] by simp
qed

text \<open>
  C10, as stated, fails in a run that an exception ends before the tickets. The read of
  the alerts is answered 404 and the security status is the inconclusive one; then the
  connection fails at the read of the licence and the run ends with no ticket submitted.
\<close>

theorem unretrieved_vulnerabilities_no_ticket:
  "fst (check_security (answering (repository not_found None))
          (before_security (answering (repository not_found None)) world0)) =
     Inr ''Could not retrieve security vulnerabilities.''
   \<and> fst (report_findings (answering (repository not_found None)) world0) =
     Inl RequestException
   \<and> tickets_since world0
       (snd (report_findings (answering (repository not_found None)) world0)) = []"
  by (simp add: repository_run_unreachable [OF repository_security_absent]
      repository_before_security repository_security_absent)

theorem unretrieved_vulnerabilities_ticket_witness:
  "fst (report_findings (answering (repository not_found (Some not_found))) world0) = Inr ()
   \<and> filter (\<lambda>ticket. fst ticket = ''Security vulnerabilities detected'')
       (tickets_since world0
         (snd (report_findings (answering (repository not_found (Some not_found))) world0))) =
     [(''Security vulnerabilities detected'',
       ''Could not retrieve security vulnerabilities.'')]"
  using unretrieved_vulnerabilities_ticket [OF
      repository_run_returns [OF repository_security_absent] repository_alerts not_found_status]
    repository_run_returns [OF repository_security_absent]
  by simp

section \<open>What the client does for each status\<close>

text \<open>
  \<open>fetch_data\<close> by status, when the platform answers: 200 returns the decoded body (and
  raises when the body is not JSON), 400 to 599 raises \<open>HTTPError\<close> with the status, and
  every other status returns \<open>None\<close>.
\<close>

theorem fetch_data_by_status:
  assumes "remote env (trace s) (Get url (headers (self s))) = Some r"
  shows "fst (fetch_data env url s) =
     (if status_code r = 200
      then (case json_body r of None \<Rightarrow> Inl RequestException | Some v \<Rightarrow> Inr v)
      else if 400 \<le> status_code r \<and> status_code r < 600 then Inl (HTTPError (status_code r))
      else Inr JNull)"
  using assms
  by (simp add: fetch_data_def Let_def raise_for_status_def split: option.splits)

theorem fetch_data_by_status_witness:
  "fst (fetch_data (answering (serving [])) ''https://api.github.com/repos/octo/demo/license''
     world0) = Inl (HTTPError 404)"
proof -
  have "remote (answering (serving [])) (trace world0)
      (Get ''https://api.github.com/repos/octo/demo/license'' (headers (self world0))) =
      Some not_found"
    by (simp add: serving_Get)
  from fetch_data_by_status [OF this] show ?thesis
    by (simp add: not_found_def)
qed

text \<open>
  \<open>check_dependencies\<close> by status, when the platform answers both reads and a 200 comes
  with a JSON body: a manifest is reported missing exactly when its status is from 400 to
  599, and found in every other case; the list has the two manifests in their order.
\<close>

theorem check_dependencies_by_status:
  assumes "remote env (trace s)
      (Get (base_url (self s) @ ''/contents/package.json'') (headers (self s))) = Some r1"
    and "remote env
      (trace s @ [Request (Get (base_url (self s) @ ''/contents/package.json'')
                    (headers (self s)))])
      (Get (base_url (self s) @ ''/contents/requirements.txt'') (headers (self s))) = Some r2"
    and "status_code r1 = 200 \<longrightarrow> json_body r1 \<noteq> None"
    and "status_code r2 = 200 \<longrightarrow> json_body r2 \<noteq> None"
  shows "fst (check_dependencies env s) =
     Inr [''package.json'' @ (if 400 \<le> status_code r1 \<and> status_code r1 < 600
                              then '' is missing.'' else '' found and needs further analysis.''),
          ''requirements.txt'' @ (if 400 \<le> status_code r2 \<and> status_code r2 < 600
                              then '' is missing.'' else '' found and needs further analysis.'')]"
proof -
  let ?pkg = "base_url (self s) @ ''/contents/package.json''"
  let ?req = "base_url (self s) @ ''/contents/requirements.txt''"
  let ?s1 = "reads s [?pkg]"
  have first: "fetch_data env ?pkg s =
      (if 400 \<le> status_code r1 \<and> status_code r1 < 600 then Inl (HTTPError (status_code r1))
       else Inr (if status_code r1 = 200 then the (json_body r1) else JNull), ?s1)"
    using assms(1,3)
    by (auto simp: fetch_data_def Let_def raise_for_status_def reads_def)
  have "remote env (trace ?s1) (Get ?req (headers (self ?s1))) = Some r2"
    using assms(2) by simp
  then have second: "fetch_data env ?req ?s1 =
      (if 400 \<le> status_code r2 \<and> status_code r2 < 600 then Inl (HTTPError (status_code r2))
       else Inr (if status_code r2 = 200 then the (json_body r2) else JNull), reads ?s1 [?req])"
    using assms(4)
    by (auto simp: fetch_data_def Let_def raise_for_status_def reads_def)
  show ?thesis
    by (simp add: check_dependencies_def manifest_files_def bind_def except_HTTPError_def ret_def
        first second)
qed

theorem check_dependencies_by_status_witness:
  "fst (check_dependencies (answering (serving [])) world0) =
     Inr [''package.json is missing.'', ''requirements.txt is missing.'']"
proof -
  have "remote (answering (serving [])) history (Get url h) = Some not_found" for history url h
    by (simp add: serving_Get)
  from check_dependencies_by_status [OF this this] show ?thesis
    by (simp add: not_found_def)
qed

section \<open>A whole run of the scenario repository\<close>

lemma create_issue_repository:
  "create_issue (answering (repository alerts licence)) title body s =
     (Inr (), s\<lparr>self := with_accept (self s),
                trace := trace s @ [Request (Post (base_url (self s) @ ''/issues'')
                   (JObj [(''title'', JStr title), (''body'', JStr body)])
                   (headers (with_accept (self s)))),
                 Print (''Issue created: '' @ title)]\<rparr>)"
  by (simp add: create_issue_def Let_def print_def repository_def serving_def with_accept_def)

lemma says_missing:
  "str_contains (lower ''README.md file is missing.'') ''missing''"
  "str_contains (lower ''License file is missing.'') ''missing''"
  "str_contains (lower ''Contributing guidelines are missing.'') ''missing''"
  "str_contains (lower ''Issue templates are missing.'') ''missing''"
  "str_contains (lower ''Pull request templates are missing.'') ''missing''"
  "str_contains (lower ''Changelog is missing.'') ''missing''"
  "str_contains (lower ''package.json is missing.'') ''missing''"
  "str_contains (lower ''Found 2 unresolved open issues, including 1 with long inactivity.'')
     ''long inactivity''"
  by code_simp+

text \<open>
  The run on the scenario repository with three alerts: the reads of the checks with the two
  comment threads of the issue check, the report, and all nine tickets in their order.
\<close>

lemma audit_order_repository:
  "actions_since world0
     (snd (report_findings (answering (repository three_alerts (Some not_found))) world0)) =
   audit_actions ''https://api.github.com/repos/octo/demo''
     [''https://api.github.com/repos/octo/demo/issues/7/comments'',
      ''https://api.github.com/repos/octo/demo/issues/9/comments'']
     []
     remediation_titles"
  by (simp add: report_findings_def bind_def repository_checks repository_license_absent
      repository_security_three print_def create_issues_def if_then_def says_missing
      found_3_says_vulnerabilities create_issue_repository actions_since_def audit_actions_def
      check_reads_def submissions_def remediation_titles_def ticket_title_def world0_def
      reads_def init_def with_accept_def)

theorem audit_order_witness:
  "fst (report_findings (answering (repository three_alerts (Some not_found))) world0) = Inr ()
   \<and> (\<exists>issue_threads pull_threads titles.
        subseq titles remediation_titles
        \<and> actions_since world0
             (snd (report_findings (answering (repository three_alerts (Some not_found)))
                world0)) =
           audit_actions ''https://api.github.com/repos/octo/demo''
             issue_threads pull_threads titles)"
proof -
  have returned:
    "fst (report_findings (answering (repository three_alerts (Some not_found))) world0) = Inr ()"
    by (rule repository_run_returns [OF repository_security_three])
  from audit_order [of world0 "answering (repository three_alerts (Some not_found))"]
  obtain issue_threads pull_threads titles where
    "subseq titles remediation_titles"
    "isl (fst (report_findings (answering (repository three_alerts (Some not_found))) world0))
     \<or> actions_since world0
          (snd (report_findings (answering (repository three_alerts (Some not_found))) world0)) =
        audit_actions (base_url (self world0)) issue_threads pull_threads titles"
    by blast
  with returned have "subseq titles remediation_titles
      \<and> actions_since world0
          (snd (report_findings (answering (repository three_alerts (Some not_found))) world0)) =
        audit_actions ''https://api.github.com/repos/octo/demo'' issue_threads pull_threads titles"
    by (simp add: base_url_world0)
  with returned show ?thesis by blast
qed

end
